theory Spec2Isabelle
  imports Main
begin

section \<open>Date and grid utilities\<close>

text \<open>
  A JavaScript \<^verbatim>\<open>Date\<close> is read by the source only through its local calendar
  fields (\<^verbatim>\<open>getFullYear\<close>, \<^verbatim>\<open>getMonth\<close>, \<^verbatim>\<open>getDate\<close>, \<^verbatim>\<open>getDay\<close>) and built only by
  \<^verbatim>\<open>new Date(year, month, date)\<close>. The year, month and date of a local day number
  (the number of days since 1 January 1970 in local time) and the day number of a
  year, month and date follow the ECMAScript definitions (DaysInYear, DayFromYear,
  YearFromTime, MonthFromTime, DateFromTime, WeekDay, MakeDay), with days in place
  of milliseconds; the time of day plays no part in any of the functions below.

  The utilities come in two layers. The first layer, in this section, takes a
  \<^verbatim>\<open>Date\<close> to be its local day number: it is the reading of the utilities in a time
  zone that skips no calendar day and inside the range of time values. The second
  layer (the functions named \<open>_tz\<close>, further down) carries the time zone and the
  range: a date may be invalid, a number may be \<^verbatim>\<open>NaN\<close>, and a calendar day that
  the zone skipped is not the local date of any \<^verbatim>\<open>Date\<close>. The two layers agree
  where the first applies (\<open>newDate_tz_plain\<close>).
\<close>

type_synonym Date = int

definition DaysInYear :: "int \<Rightarrow> int" where
  "DaysInYear y =
     (if y mod 4 \<noteq> 0 then 365
      else if y mod 100 \<noteq> 0 then 366
      else if y mod 400 \<noteq> 0 then 365
      else 366)"

definition DayFromYear :: "int \<Rightarrow> int" where
  "DayFromYear y =
     365 * (y - 1970) + (y - 1969) div 4 - (y - 1901) div 100 + (y - 1601) div 400"

text \<open>
  YearFromTime is "the largest integer \<open>y\<close> such that DayFromYear \<open>y\<close> is at most the
  day": a search downwards from a year that is not too small.
\<close>

function yearSearch :: "int \<Rightarrow> int \<Rightarrow> int" where
  "yearSearch y t = (if DayFromYear y \<le> t then y else yearSearch (y - 1) t)"
  by pat_completeness auto

definition YearFromTime :: "Date \<Rightarrow> int" where
  "YearFromTime t = yearSearch (1970 + max (t div 365) (t div 366)) t"

definition InLeapYear :: "Date \<Rightarrow> int" where
  "InLeapYear t = (if DaysInYear (YearFromTime t) = 366 then 1 else 0)"

definition DayWithinYear :: "Date \<Rightarrow> int" where
  "DayWithinYear t = t - DayFromYear (YearFromTime t)"

definition MonthFromTime :: "Date \<Rightarrow> int" where
  "MonthFromTime t =
     (let d = DayWithinYear t; l = InLeapYear t
      in if d < 31 then 0
         else if d < 59 + l then 1
         else if d < 90 + l then 2
         else if d < 120 + l then 3
         else if d < 151 + l then 4
         else if d < 181 + l then 5
         else if d < 212 + l then 6
         else if d < 243 + l then 7
         else if d < 273 + l then 8
         else if d < 304 + l then 9
         else if d < 334 + l then 10
         else 11)"

text \<open>The day within the year on which month \<open>m\<close> starts (\<open>l\<close> is 1 in a leap year).\<close>

definition monthStart :: "int \<Rightarrow> int \<Rightarrow> int" where
  "monthStart m l =
     (if m = 0 then 0
      else if m = 1 then 31
      else if m = 2 then 59 + l
      else if m = 3 then 90 + l
      else if m = 4 then 120 + l
      else if m = 5 then 151 + l
      else if m = 6 then 181 + l
      else if m = 7 then 212 + l
      else if m = 8 then 243 + l
      else if m = 9 then 273 + l
      else if m = 10 then 304 + l
      else 334 + l)"

definition DateFromTime :: "Date \<Rightarrow> int" where
  "DateFromTime t = DayWithinYear t - monthStart (MonthFromTime t) (InLeapYear t) + 1"

definition WeekDay :: "Date \<Rightarrow> int" where
  "WeekDay t = (t + 4) mod 7"

text \<open>
  MakeDay carries a month outside 0..11 into the year and lets the date run over
  the ends of the month: it is the day number of the first of the month plus
  \<open>date - 1\<close>.
\<close>

definition MakeDay :: "int \<Rightarrow> int \<Rightarrow> int \<Rightarrow> Date" where
  "MakeDay year month date =
     (let ym = year + month div 12; mn = month mod 12
      in DayFromYear ym + monthStart mn (if DaysInYear ym = 366 then 1 else 0) + date - 1)"

text \<open>
  \<^verbatim>\<open>new Date(year, month, date)\<close>. The constructor reads a year from 0 to 99 as a
  year of the twentieth century (ECMAScript, Date constructor: "if 0 \<le> yi \<le> 99, let
  yr be 1900 + yi; otherwise, let yr be y").
\<close>

definition newDate :: "int \<Rightarrow> int \<Rightarrow> int \<Rightarrow> Date" where
  "newDate year month date =
     MakeDay (if 0 \<le> year \<and> year \<le> 99 then 1900 + year else year) month date"

definition getFullYear :: "Date \<Rightarrow> int" where "getFullYear d = YearFromTime d"
definition getMonth :: "Date \<Rightarrow> int" where "getMonth d = MonthFromTime d"
definition getDate :: "Date \<Rightarrow> int" where "getDate d = DateFromTime d"
definition getDay :: "Date \<Rightarrow> int" where "getDay d = WeekDay d"

text \<open>
  \<^verbatim>\<open>
  const startOfMonth = (d) => new Date(d.getFullYear(), d.getMonth(), 1);
  const endOfMonth = (d) => new Date(d.getFullYear(), d.getMonth() + 1, 0);
  const addDays = (d, n) => new Date(d.getFullYear(), d.getMonth(), d.getDate() + n);
  const sameDay = (a, b) =>
    a.getFullYear() === b.getFullYear() && a.getMonth() === b.getMonth()
    && a.getDate() === b.getDate();
  const mondayFirstDow = (d) => { const js = d.getDay(); return (js + 6) % 7; };
  \<close>
\<close>

definition startOfMonth :: "Date \<Rightarrow> Date" where
  "startOfMonth d = newDate (getFullYear d) (getMonth d) 1"

definition endOfMonth :: "Date \<Rightarrow> Date" where
  "endOfMonth d = newDate (getFullYear d) (getMonth d + 1) 0"

definition addDays :: "Date \<Rightarrow> int \<Rightarrow> Date" where
  "addDays d n = newDate (getFullYear d) (getMonth d) (getDate d + n)"

definition sameDay :: "Date \<Rightarrow> Date \<Rightarrow> bool" where
  "sameDay a b \<longleftrightarrow>
     getFullYear a = getFullYear b \<and> getMonth a = getMonth b \<and> getDate a = getDate b"

definition mondayFirstDow :: "Date \<Rightarrow> int" where
  "mondayFirstDow d = (let js = getDay d in (js + 6) mod 7)"

text \<open>
  \<^verbatim>\<open>String(n)\<close> for an integer, \<^verbatim>\<open>padStart\<close>, and
  \<^verbatim>\<open>
  const pad2 = (n) => String(n).padStart(2, "0");
  const isoDate = (d) =>
    `${d.getFullYear()}-${pad2(d.getMonth() + 1)}-${pad2(d.getDate())}`;
  \<close>
\<close>

function digits :: "nat \<Rightarrow> string" where
  "digits n = (if n < 10 then [''0123456789'' ! n]
               else digits (n div 10) @ [''0123456789'' ! (n mod 10)])"
  by pat_completeness auto
termination
  by (relation "measure id") auto

definition String_number :: "int \<Rightarrow> string" where
  "String_number n = (if n < 0 then CHR ''-'' # digits (nat (- n)) else digits (nat n))"

definition padStart :: "string \<Rightarrow> nat \<Rightarrow> char \<Rightarrow> string" where
  "padStart s targetLength c = replicate (targetLength - length s) c @ s"

definition pad2 :: "int \<Rightarrow> string" where
  "pad2 n = padStart (String_number n) 2 CHR ''0''"

definition isoDate :: "Date \<Rightarrow> string" where
  "isoDate d =
     String_number (getFullYear d) @ ''-'' @ pad2 (getMonth d + 1) @ ''-'' @ pad2 (getDate d)"

subsection \<open>The month grid\<close>

text \<open>
  \<^verbatim>\<open>
  const monthDays = useMemo(() => {
    const start = startOfMonth(cursor);
    const end = endOfMonth(cursor);
    const firstCell = addDays(start, -mondayFirstDow(start));
    const cells = [];
    for (let i = 0; i < 42; i++) {
      const d = addDays(firstCell, i);
      cells.push({ date: d, inMonth: d.getMonth() === cursor.getMonth(),
                   isToday: sameDay(d, today) });
    }
    return { start, end, cells };
  }, [cursor, today]);
  \<close>
\<close>

record cell =
  date :: Date
  inMonth :: bool
  isToday :: bool

record MonthDays =
  start :: Date
  end' :: Date
  cells :: "cell list"

function cellsLoop :: "Date \<Rightarrow> Date \<Rightarrow> Date \<Rightarrow> nat \<Rightarrow> cell list \<Rightarrow> cell list" where
  "cellsLoop firstCell cursor today i cs =
     (if i < 42
      then (let d = addDays firstCell (int i)
            in cellsLoop firstCell cursor today (i + 1)
                 (cs @ [\<lparr>date = d, inMonth = (getMonth d = getMonth cursor),
                          isToday = sameDay d today\<rparr>]))
      else cs)"
  by pat_completeness auto
termination
  by (relation "measure (\<lambda>(firstCell, cursor, today, i, cs). 42 - i)") auto

definition monthDays :: "Date \<Rightarrow> Date \<Rightarrow> MonthDays" where
  "monthDays cursor today =
     (let start = startOfMonth cursor;
          end = endOfMonth cursor;
          firstCell = addDays start (- mondayFirstDow start);
          cells = cellsLoop firstCell cursor today 0 []
      in \<lparr>start = start, end' = end, cells = cells\<rparr>)"

text \<open>The cell that iteration \<open>i\<close> of the loop pushes.\<close>

definition gridCell :: "Date \<Rightarrow> Date \<Rightarrow> Date \<Rightarrow> nat \<Rightarrow> cell" where
  "gridCell firstCell cursor today i =
     \<lparr>date = addDays firstCell (int i),
      inMonth = (getMonth (addDays firstCell (int i)) = getMonth cursor),
      isToday = sameDay (addDays firstCell (int i)) today\<rparr>"

section \<open>Availability model\<close>

text \<open>
  The source declares
  \<^verbatim>\<open>type Availability = Record<string, Record<string, boolean>>\<close> and
  \<^verbatim>\<open>type Status = "available" | "unavailable"\<close>.
  The model has two layers here as well. In the first, of this section, a record is
  the map of its own properties: \<open>a p = None\<close> is an absent key, which the source
  reads as \<^verbatim>\<open>undefined\<close>. This is the reading of the two functions on keys that no
  object inherits (\<open>plainKey\<close>). The second layer (the functions named \<open>_js\<close>,
  further down) follows the property reads and writes of the source along the
  prototype chain; the two layers agree on plain keys (\<open>getStatus_js_plain\<close>,
  \<open>setStatus_js_plain\<close>, \<open>rowsLoop_js_plain\<close>).
\<close>

datatype Status = available | unavailable

type_synonym Availability = "string \<rightharpoonup> (string \<rightharpoonup> bool)"

text \<open>
  \<^verbatim>\<open>
  function getStatusFromAvailability(availability, personId, dateStr): Status {
    const per = availability?.[personId];
    if (!per || !(dateStr in per)) return "available";
    return per[dateStr] === true ? "available" : "unavailable";
  }
  \<close>
\<close>

definition getStatusFromAvailability :: "Availability \<Rightarrow> string \<Rightarrow> string \<Rightarrow> Status" where
  "getStatusFromAvailability availability personId dateStr =
     (case availability personId of
        None \<Rightarrow> available
      | Some per \<Rightarrow>
          (case per dateStr of
             None \<Rightarrow> available
           | Some b \<Rightarrow> if b = True then available else unavailable))"

text \<open>
  \<^verbatim>\<open>
  function setStatusInAvailability(availability, personId, dateStr, nextStatus): Availability {
    const next: Availability = { ...(availability || {}) };
    const per = { ...(next[personId] || {}) };
    per[dateStr] = nextStatus === "available";
    next[personId] = per;
    return next;
  }
  \<close>
\<close>

definition setStatusInAvailability ::
  "Availability \<Rightarrow> string \<Rightarrow> string \<Rightarrow> Status \<Rightarrow> Availability" where
  "setStatusInAvailability availability personId dateStr nextStatus =
     (let next = availability;
          per = (case next personId of None \<Rightarrow> Map.empty | Some r \<Rightarrow> r);
          per' = per(dateStr \<mapsto> (nextStatus = available))
      in next(personId \<mapsto> per'))"

subsection \<open>The copy in src/src/App.tsx\<close>

text \<open>
  The local-storage starter \<^verbatim>\<open>src/src/App.tsx\<close> declares the two functions again
  (lines 77 to 89); they are embedded from that file under the prefix \<open>App_\<close>, the
  lookup written with the two tests of its \<^verbatim>\<open>if\<close> as they stand.
\<close>

definition App_getStatusFromAvailability :: "Availability \<Rightarrow> string \<Rightarrow> string \<Rightarrow> Status" where
  "App_getStatusFromAvailability availability personId dateStr =
     (let per = availability personId
      in if per = None then available
         else if dateStr \<notin> dom (the per) then available
         else if the per dateStr = Some True then available else unavailable)"

definition App_setStatusInAvailability ::
  "Availability \<Rightarrow> string \<Rightarrow> string \<Rightarrow> Status \<Rightarrow> Availability" where
  "App_setStatusInAvailability availability personId dateStr nextStatus =
     (let next = availability;
          per = (case next personId of None \<Rightarrow> Map.empty | Some r \<Rightarrow> r);
          per' = per(dateStr \<mapsto> (nextStatus = available))
      in next(personId \<mapsto> per'))"

section \<open>The component: state, remote store and handlers\<close>

text \<open>
  The state of \<^verbatim>\<open>GroupAvailabilityCalendar\<close> (its \<^verbatim>\<open>useState\<close> cells) is a record that
  each handler takes and returns. The Supabase client is outside the repository: a
  handler takes the responses of the requests it awaits as arguments and returns,
  next to the new state, the list of its effects in the order it performs them
  (state writes to \<^verbatim>\<open>availability\<close>, requests sent, lines logged). A response is the
  \<^verbatim>\<open>{ data, error }\<close> object the client resolves to. A row of the
  \<^verbatim>\<open>availability\<close> table has a person id, a day and a boolean, on which
  \<^verbatim>\<open>String\<close> and \<^verbatim>\<open>Boolean\<close> are the identity.
\<close>

record Person =
  id' :: string
  name :: string
  color :: string

datatype ShowMode = Show_all | Show_none | Show_onlyUnavailable

record row =
  row_person_id :: string
  row_day :: string
  row_available :: bool

datatype upsert_response = UpsertError string | UpsertOk

datatype select_response = SelectError string | SelectData "row list option"

datatype effect =
    SetAvailability Availability
  | Upsert row
  | Select string string
  | ConsoleError string

record AppState =
  today :: Date
  cursor :: Date
  people :: "Person list"
  selectedIds :: "string set"
  availability :: Availability
  currentUserId :: string
  showMode :: ShowMode

text \<open>
  \<^verbatim>\<open>
  const refreshAvailability = React.useCallback(async () => {
    const cells = monthDays.cells;
    if (!cells.length) return;
    const startISO = isoDate(cells[0].date);
    const endISO = isoDate(cells[cells.length - 1].date);
    const { data, error } = await supabase.from("availability")
      .select("person_id, day, available").gte("day", startISO).lte("day", endISO);
    if (error) { console.error("Failed to load availability", error); return; }
    const next: Availability = {};
    for (const row of data ?? []) {
      const pid = String(row.person_id);
      const dayStr = String(row.day);
      if (!next[pid]) next[pid] = {};
      next[pid][dayStr] = Boolean(row.available);
    }
    setAvailability(next);
  }, [monthDays]);
  \<close>
\<close>

fun rowsLoop :: "row list \<Rightarrow> Availability \<Rightarrow> Availability" where
  "rowsLoop [] next = next"
| "rowsLoop (r # rs) next =
     (let pid = row_person_id r;
          dayStr = row_day r;
          next1 = (if next pid = None then next(pid \<mapsto> Map.empty) else next);
          next2 = (case next1 pid of
                     None \<Rightarrow> next1
                   | Some per \<Rightarrow> next1(pid \<mapsto> per(dayStr \<mapsto> row_available r)))
      in rowsLoop rs next2)"

definition refreshAvailability :: "select_response \<Rightarrow> AppState \<Rightarrow> AppState \<times> effect list" where
  "refreshAvailability resp s =
     (let cs = cells (monthDays (cursor s) (today s))
      in if length cs = 0 then (s, [])
         else
           (let startISO = isoDate (date (cs ! 0));
                endISO = isoDate (date (cs ! (length cs - 1)));
                query = Select startISO endISO
            in case resp of
                 SelectError e \<Rightarrow> (s, [query, ConsoleError ''Failed to load availability''])
               | SelectData d \<Rightarrow>
                   (let next = rowsLoop (case d of None \<Rightarrow> [] | Some rs \<Rightarrow> rs) Map.empty
                    in (s\<lparr>availability := next\<rparr>, [query, SetAvailability next]))))"

text \<open>
  \<^verbatim>\<open>
  const getStatus = (personId, dateStr) =>
    getStatusFromAvailability(availability, personId, dateStr);

  const setStatus = async (personId, dateStr, nextStatus) => {
    setAvailability((prev) => setStatusInAvailability(prev, personId, dateStr, nextStatus));
    const { error } = await supabase.from("availability").upsert({
      person_id: personId, day: dateStr, available: nextStatus === "available" });
    if (error) {
      console.error("Failed to save availability", error);
      await refreshAvailability();
      return;
    }
    await refreshAvailability();
  };
  \<close>
\<close>

definition getStatus :: "AppState \<Rightarrow> string \<Rightarrow> string \<Rightarrow> Status" where
  "getStatus s personId dateStr = getStatusFromAvailability (availability s) personId dateStr"

definition setStatus ::
  "string \<Rightarrow> string \<Rightarrow> Status \<Rightarrow> upsert_response \<Rightarrow> select_response \<Rightarrow> AppState
     \<Rightarrow> AppState \<times> effect list" where
  "setStatus personId dateStr nextStatus upserted selected s =
     (let a1 = setStatusInAvailability (availability s) personId dateStr nextStatus;
          s1 = s\<lparr>availability := a1\<rparr>;
          request = Upsert \<lparr>row_person_id = personId, row_day = dateStr,
                            row_available = (nextStatus = available)\<rparr>
      in case upserted of
           UpsertError e \<Rightarrow>
             (let (s2, log) = refreshAvailability selected s1
              in (s2, [SetAvailability a1, request,
                       ConsoleError ''Failed to save availability''] @ log))
         | UpsertOk \<Rightarrow>
             (let (s2, log) = refreshAvailability selected s1
              in (s2, [SetAvailability a1, request] @ log)))"

text \<open>
  The \<^verbatim>\<open>onClick\<close> of the "Unavailable" button:
  \<^verbatim>\<open>
  setShowMode("onlyUnavailable");
  const idsWithUnavailable = new Set<string>();
  for (const p of people) {
    for (const cell of monthDays.cells) {
      const dStr = isoDate(cell.date);
      if (getStatus(p.id, dStr) === "unavailable") {
        idsWithUnavailable.add(p.id);
        break;
      }
    }
  }
  setSelectedIds(idsWithUnavailable);
  \<close>
  \<open>scanCells\<close> is the inner loop (it answers whether the loop left through
  \<^verbatim>\<open>break\<close>), \<open>scanPeople\<close> the outer one.
\<close>

fun scanCells :: "AppState \<Rightarrow> string \<Rightarrow> cell list \<Rightarrow> bool" where
  "scanCells s pid [] = False"
| "scanCells s pid (c # cs) =
     (let dStr = isoDate (date c)
      in if getStatus s pid dStr = unavailable then True else scanCells s pid cs)"

fun scanPeople :: "AppState \<Rightarrow> Person list \<Rightarrow> string set \<Rightarrow> string set" where
  "scanPeople s [] idsWithUnavailable = idsWithUnavailable"
| "scanPeople s (p # ps) idsWithUnavailable =
     scanPeople s ps
       (if scanCells s (id' p) (cells (monthDays (cursor s) (today s)))
        then insert (id' p) idsWithUnavailable else idsWithUnavailable)"

definition onlyUnavailableClick :: "AppState \<Rightarrow> AppState" where
  "onlyUnavailableClick s =
     (let idsWithUnavailable = scanPeople s (people s) {}
      in s\<lparr>showMode := Show_onlyUnavailable, selectedIds := idsWithUnavailable\<rparr>)"

section \<open>The availability functions along the prototype chain\<close>

text \<open>
  The objects of the source are object literals: their prototype is
  \<^verbatim>\<open>Object.prototype\<close>, and \<^verbatim>\<open>o[k]\<close>, \<^verbatim>\<open>k in o\<close> and \<^verbatim>\<open>o[k] = v\<close> look a key up along
  the prototype chain. What the functions of the source can reach that way is kept
  in a \<open>Realm\<close>: the own properties of \<^verbatim>\<open>Object.prototype\<close> other than the accessor
  \<^verbatim>\<open>__proto__\<close>, those of \<^verbatim>\<open>Function.prototype\<close>, and those of each built-in method,
  named by the key of \<^verbatim>\<open>Object.prototype\<close> that holds it. A property of
  \<^verbatim>\<open>Object.prototype\<close> is a built-in method (\<open>Method\<close>), a built-in property whose
  value the program has replaced by a boolean (\<open>Replaced\<close>, still not enumerable),
  or a boolean property that the program has added (\<open>Written\<close>, enumerable). A
  property of a function is a built-in member that can be assigned (\<open>Member\<close>),
  one whose assignment throws in strict code, such as \<^verbatim>\<open>length\<close> and \<^verbatim>\<open>name\<close>
  (\<open>Fixed\<close>), a member replaced by a boolean (\<open>Changed\<close>) or a boolean added by the
  program (\<open>Put\<close>). The realm is a parameter of the functions; \<open>standardRealm\<close>
  lists the properties that ECMAScript 2015 gives the three objects.

  A value that a property read can return is \<^verbatim>\<open>undefined\<close>, a boolean, an object
  built by the source (its own properties are booleans and its prototype is
  \<^verbatim>\<open>Object.prototype\<close>), \<^verbatim>\<open>Object.prototype\<close> itself, or a built-in method. The
  availability object has records as own properties and a prototype of its own:
  \<open>proto = None\<close> is \<^verbatim>\<open>Object.prototype\<close>, and \<open>proto = Some P\<close> is the object \<open>P\<close> that
  an assignment to the key \<^verbatim>\<open>__proto__\<close> has put in its place.
\<close>

datatype protoSlot = Method | Replaced bool | Written bool

datatype funSlot = Member | Fixed | Changed bool | Put bool

record Realm =
  objectPrototype :: "string \<rightharpoonup> protoSlot"
  functionPrototype :: "string \<rightharpoonup> funSlot"
  methodOwn :: "string \<Rightarrow> (string \<rightharpoonup> funSlot)"

datatype jsval =
    Undefined
  | Boolean bool
  | Plain "string \<rightharpoonup> bool"
  | ObjectPrototype
  | MethodOf string

record AvailabilityObject =
  own :: "string \<rightharpoonup> (string \<rightharpoonup> bool)"
  proto :: "(string \<rightharpoonup> bool) option"

datatype exn = TypeError

definition defined :: "'a option \<Rightarrow> bool" where
  "defined x = (case x of None \<Rightarrow> False | Some y \<Rightarrow> True)"

definition protoGet :: "Realm \<Rightarrow> jsval \<Rightarrow> string \<Rightarrow> jsval" where
  "protoGet r receiverProto k =
     (if k = ''__proto__'' then receiverProto
      else case objectPrototype r k of
             None \<Rightarrow> Undefined
           | Some Method \<Rightarrow> MethodOf k
           | Some (Replaced b) \<Rightarrow> Boolean b
           | Some (Written b) \<Rightarrow> Boolean b)"

definition getProperty :: "Realm \<Rightarrow> AvailabilityObject \<Rightarrow> string \<Rightarrow> jsval" where
  "getProperty r a k =
     (case own a k of
        Some m \<Rightarrow> Plain m
      | None \<Rightarrow>
          (case proto a of
             None \<Rightarrow> protoGet r ObjectPrototype k
           | Some P \<Rightarrow>
               (case P k of
                  Some b \<Rightarrow> Boolean b
                | None \<Rightarrow> protoGet r (Plain P) k)))"

definition truthy :: "jsval \<Rightarrow> bool" where
  "truthy v = (case v of Undefined \<Rightarrow> False | Boolean b \<Rightarrow> b | Plain m \<Rightarrow> True
                 | ObjectPrototype \<Rightarrow> True | MethodOf f \<Rightarrow> True)"

definition inObjectPrototype :: "Realm \<Rightarrow> string \<Rightarrow> bool" where
  "inObjectPrototype r k = (k = ''__proto__'' \<or> defined (objectPrototype r k))"

definition hasProperty :: "Realm \<Rightarrow> jsval \<Rightarrow> string \<Rightarrow> exn + bool" where
  "hasProperty r v k =
     (case v of
        Undefined \<Rightarrow> Inl TypeError
      | Boolean b \<Rightarrow> Inl TypeError
      | Plain m \<Rightarrow> Inr (defined (m k) \<or> inObjectPrototype r k)
      | ObjectPrototype \<Rightarrow> Inr (inObjectPrototype r k)
      | MethodOf f \<Rightarrow>
          Inr (defined (methodOwn r f k) \<or> defined (functionPrototype r k)
               \<or> inObjectPrototype r k))"

definition inheritedTrue :: "Realm \<Rightarrow> string \<Rightarrow> bool" where
  "inheritedTrue r k =
     (if k = ''__proto__'' then False
      else case objectPrototype r k of
             None \<Rightarrow> False
           | Some Method \<Rightarrow> False
           | Some (Replaced b) \<Rightarrow> b
           | Some (Written b) \<Rightarrow> b)"

definition memberTrue :: "funSlot \<Rightarrow> bool" where
  "memberTrue s = (case s of Member \<Rightarrow> False | Fixed \<Rightarrow> False | Changed b \<Rightarrow> b | Put b \<Rightarrow> b)"

definition isTrue :: "Realm \<Rightarrow> jsval \<Rightarrow> string \<Rightarrow> bool" where
  "isTrue r v k =
     (case v of
        Undefined \<Rightarrow> False
      | Boolean b \<Rightarrow> False
      | Plain m \<Rightarrow> (case m k of Some b \<Rightarrow> b | None \<Rightarrow> inheritedTrue r k)
      | ObjectPrototype \<Rightarrow> inheritedTrue r k
      | MethodOf f \<Rightarrow>
          (case methodOwn r f k of
             Some s \<Rightarrow> memberTrue s
           | None \<Rightarrow>
               (case functionPrototype r k of
                  Some s \<Rightarrow> memberTrue s
                | None \<Rightarrow> inheritedTrue r k)))"

text \<open>
  \<^verbatim>\<open>
  function getStatusFromAvailability(availability, personId, dateStr): Status {
    const per = availability?.[personId];
    if (!per || !(dateStr in per)) return "available";
    return per[dateStr] === true ? "available" : "unavailable";
  }
  \<close>
  \<open>getProperty\<close> is \<^verbatim>\<open>availability?.[personId]\<close>: an own property, else a property of
  the prototype, else one of \<^verbatim>\<open>Object.prototype\<close>, where the key \<^verbatim>\<open>__proto__\<close> reads
  the prototype of the object. \<open>hasProperty\<close> is the operator \<^verbatim>\<open>in\<close>, which throws a
  \<^verbatim>\<open>TypeError\<close> on a value that is not an object, and \<open>isTrue\<close> is
  \<^verbatim>\<open>per[dateStr] === true\<close>.
\<close>

definition getStatusFromAvailability_js ::
  "Realm \<Rightarrow> AvailabilityObject \<Rightarrow> string \<Rightarrow> string \<Rightarrow> exn + Status" where
  "getStatusFromAvailability_js r availability' personId dateStr =
     (let per = getProperty r availability' personId
      in if \<not> truthy per then Inr available
         else case hasProperty r per dateStr of
                Inl e \<Rightarrow> Inl e
              | Inr found \<Rightarrow>
                  if \<not> found then Inr available
                  else Inr (if isTrue r per dateStr then available else unavailable))"

text \<open>
  \<^verbatim>\<open>
  function setStatusInAvailability(availability, personId, dateStr, nextStatus): Availability {
    const next: Availability = { ...(availability || {}) };
    const per = { ...(next[personId] || {}) };
    per[dateStr] = nextStatus === "available";
    next[personId] = per;
    return next;
  }
  \<close>
  An object spread copies the own enumerable properties into a fresh object
  literal: the own properties of the availability object, but not its prototype;
  of a built-in object only the booleans that the program has added. The
  assignment \<^verbatim>\<open>per[dateStr] = b\<close> stores nothing when the key is \<^verbatim>\<open>__proto__\<close> (the
  setter ignores a value that is not an object), and \<^verbatim>\<open>next[personId] = per\<close> with
  the key \<^verbatim>\<open>__proto__\<close> replaces the prototype of \<open>next\<close> instead of adding a key.
\<close>

definition spread :: "Realm \<Rightarrow> jsval \<Rightarrow> (string \<rightharpoonup> bool)" where
  "spread r v =
     (case v of
        Undefined \<Rightarrow> Map.empty
      | Boolean b \<Rightarrow> Map.empty
      | Plain m \<Rightarrow> m
      | ObjectPrototype \<Rightarrow>
          (\<lambda>k. case objectPrototype r k of Some (Written b) \<Rightarrow> Some b | _ \<Rightarrow> None)
      | MethodOf f \<Rightarrow>
          (\<lambda>k. case methodOwn r f k of Some (Put b) \<Rightarrow> Some b | _ \<Rightarrow> None))"

definition setStatusInAvailability_js ::
  "Realm \<Rightarrow> AvailabilityObject \<Rightarrow> string \<Rightarrow> string \<Rightarrow> Status \<Rightarrow> AvailabilityObject" where
  "setStatusInAvailability_js r availability' personId dateStr nextStatus =
     (let next = \<lparr>own = own availability', proto = None\<rparr>;
          src = getProperty r next personId;
          per0 = (if truthy src then spread r src else Map.empty);
          per = (if dateStr = ''__proto__'' then per0
                 else per0(dateStr \<mapsto> (nextStatus = available)))
      in if personId = ''__proto__'' then next\<lparr>proto := Some per\<rparr>
         else next\<lparr>own := (own next)(personId \<mapsto> per)\<rparr>)"

text \<open>
  The realm of the standard: the methods of \<^verbatim>\<open>Object.prototype\<close>, the members of
  \<^verbatim>\<open>Function.prototype\<close>, and the own properties of the functions
  (\<^verbatim>\<open>Object.prototype.constructor\<close> is the function \<^verbatim>\<open>Object\<close>). The empty object is
  \<^verbatim>\<open>{}\<close>, the initial value of the \<^verbatim>\<open>availability\<close> state.
\<close>

definition standardRealm :: Realm where
  "standardRealm =
     \<lparr>objectPrototype =
        map_of (map (\<lambda>k. (k, Method))
          [''constructor'', ''hasOwnProperty'', ''isPrototypeOf'', ''propertyIsEnumerable'',
           ''toLocaleString'', ''toString'', ''valueOf'', ''__defineGetter__'',
           ''__defineSetter__'', ''__lookupGetter__'', ''__lookupSetter__'']),
      functionPrototype =
        map_of [(''length'', Fixed), (''name'', Fixed), (''arguments'', Fixed),
                (''caller'', Fixed), (''constructor'', Member), (''apply'', Member),
                (''bind'', Member), (''call'', Member), (''toString'', Member)],
      methodOwn = (\<lambda>f.
        if f = ''constructor''
        then map_of ([(''length'', Fixed), (''name'', Fixed), (''prototype'', Fixed)]
               @ map (\<lambda>k. (k, Member))
                   [''assign'', ''create'', ''defineProperties'', ''defineProperty'',
                    ''freeze'', ''getOwnPropertyDescriptor'', ''getOwnPropertyNames'',
                    ''getOwnPropertySymbols'', ''getPrototypeOf'', ''is'', ''isExtensible'',
                    ''isFrozen'', ''isSealed'', ''keys'', ''preventExtensions'', ''seal'',
                    ''setPrototypeOf''])
        else map_of [(''length'', Fixed), (''name'', Fixed)])\<rparr>"

definition emptyObject :: AvailabilityObject where
  "emptyObject = \<lparr>own = Map.empty, proto = None\<rparr>"

text \<open>
  The loop of \<open>refreshAvailability\<close>, which starts from \<^verbatim>\<open>const next = {}\<close>:
  \<^verbatim>\<open>
  for (const row of data ?? []) {
    const pid = String(row.person_id);
    const dayStr = String(row.day);
    if (!next[pid]) next[pid] = {};
    next[pid][dayStr] = Boolean(row.available);
  }
  \<close>
  The test \<^verbatim>\<open>!next[pid]\<close> sees inherited properties, so for an inherited key the
  assignment \<^verbatim>\<open>next[pid][dayStr] = b\<close> (\<open>assignDay\<close>) writes on the inherited object:
  on \<^verbatim>\<open>Object.prototype\<close> or on a built-in method, which changes the realm. The
  source is a module, hence strict code: an assignment to a property that cannot be
  assigned, or to a property of a boolean, throws a \<^verbatim>\<open>TypeError\<close>; the key
  \<^verbatim>\<open>__proto__\<close> reaches the setter, which ignores a boolean. An assignment to a
  built-in property keeps it out of the enumerable properties, an assignment to a
  new key adds an enumerable one. \<open>afterRows\<close> is the loop from the empty object, as
  \<open>refreshAvailability\<close> runs it.
\<close>

definition assignDay ::
  "Realm \<Rightarrow> (string \<rightharpoonup> (string \<rightharpoonup> bool)) \<Rightarrow> string \<Rightarrow> string \<Rightarrow> bool
     \<Rightarrow> exn + (Realm \<times> (string \<rightharpoonup> (string \<rightharpoonup> bool)))" where
  "assignDay r next pid dayStr b =
     (let onMethod = (\<lambda>f s. r\<lparr>methodOwn := (methodOwn r)(f := (methodOwn r f)(dayStr \<mapsto> s))\<rparr>);
          onPrototype = (\<lambda>s. r\<lparr>objectPrototype := (objectPrototype r)(dayStr \<mapsto> s)\<rparr>)
      in case getProperty r \<lparr>own = next, proto = None\<rparr> pid of
           Undefined \<Rightarrow> Inl TypeError
         | Boolean v \<Rightarrow> if dayStr = ''__proto__'' then Inr (r, next) else Inl TypeError
         | Plain m \<Rightarrow>
             Inr (r, if dayStr = ''__proto__'' then next else next(pid \<mapsto> m(dayStr \<mapsto> b)))
         | ObjectPrototype \<Rightarrow>
             (if dayStr = ''__proto__'' then Inr (r, next)
              else case objectPrototype r dayStr of
                     None \<Rightarrow> Inr (onPrototype (Written b), next)
                   | Some Method \<Rightarrow> Inr (onPrototype (Replaced b), next)
                   | Some (Replaced v) \<Rightarrow> Inr (onPrototype (Replaced b), next)
                   | Some (Written v) \<Rightarrow> Inr (onPrototype (Written b), next))
         | MethodOf f \<Rightarrow>
             (case methodOwn r f dayStr of
                Some Fixed \<Rightarrow> Inl TypeError
              | Some Member \<Rightarrow> Inr (onMethod f (Changed b), next)
              | Some (Changed v) \<Rightarrow> Inr (onMethod f (Changed b), next)
              | Some (Put v) \<Rightarrow> Inr (onMethod f (Put b), next)
              | None \<Rightarrow>
                  (case functionPrototype r dayStr of
                     Some Fixed \<Rightarrow> Inl TypeError
                   | Some Member \<Rightarrow> Inr (onMethod f (Put b), next)
                   | Some (Changed v) \<Rightarrow> Inr (onMethod f (Put b), next)
                   | Some (Put v) \<Rightarrow> Inr (onMethod f (Put b), next)
                   | None \<Rightarrow>
                       if dayStr = ''__proto__'' then Inr (r, next)
                       else Inr (onMethod f (Put b), next))))"

fun rowsLoop_js ::
  "row list \<Rightarrow> Realm \<Rightarrow> (string \<rightharpoonup> (string \<rightharpoonup> bool))
     \<Rightarrow> exn + (Realm \<times> (string \<rightharpoonup> (string \<rightharpoonup> bool)))" where
  "rowsLoop_js [] r next = Inr (r, next)"
| "rowsLoop_js (row # rows) r next =
     (let pid = row_person_id row;
          dayStr = row_day row;
          next1 = (if truthy (getProperty r \<lparr>own = next, proto = None\<rparr> pid) then next
                   else next(pid \<mapsto> Map.empty))
      in case assignDay r next1 pid dayStr (row_available row) of
           Inl e \<Rightarrow> Inl e
         | Inr (r', next2) \<Rightarrow> rowsLoop_js rows r' next2)"

definition afterRows :: "row list \<Rightarrow> Realm \<Rightarrow> exn + (Realm \<times> AvailabilityObject)" where
  "afterRows rows r =
     (case rowsLoop_js rows r Map.empty of
        Inl e \<Rightarrow> Inl e
      | Inr (r', next) \<Rightarrow> Inr (r', \<lparr>own = next, proto = None\<rparr>))"

text \<open>
  The state update of a click on a day:
  \<^verbatim>\<open>
  const onDayClick = async (dateObj) => {
    if (!currentUserId) return;
    const dStr = isoDate(dateObj);
    const cur = getStatus(currentUserId, dStr);
    const next = cur === "available" ? "unavailable" : "available";
    await setStatus(currentUserId, dStr, next);
  };
  \<close>
  where \<^verbatim>\<open>getStatus\<close> reads the \<^verbatim>\<open>availability\<close> of the render and \<^verbatim>\<open>setStatus\<close>
  starts with
  \<^verbatim>\<open>setAvailability((prev) => setStatusInAvailability(prev, personId, dateStr, nextStatus))\<close>.
  The result is the mapping that the update leaves, or the exception of the handler.
\<close>

definition onDayClick_js ::
  "Realm \<Rightarrow> AvailabilityObject \<Rightarrow> AvailabilityObject \<Rightarrow> string \<Rightarrow> Date
     \<Rightarrow> exn + AvailabilityObject" where
  "onDayClick_js r availability' prev currentUserId' dateObj =
     (if currentUserId' = [] then Inr prev
      else
        (let dStr = isoDate dateObj
         in case getStatusFromAvailability_js r availability' currentUserId' dStr of
              Inl e \<Rightarrow> Inl e
            | Inr cur \<Rightarrow>
                Inr (setStatusInAvailability_js r prev currentUserId' dStr
                       (if cur = available then unavailable else available))))"

text \<open>A key that no object inherits in the realm.\<close>

definition plainKey :: "Realm \<Rightarrow> string \<Rightarrow> bool" where
  "plainKey r k = (if k = ''__proto__'' then False else objectPrototype r k = None)"

section \<open>The date utilities with the time zone and the range of time values\<close>

text \<open>
  A time zone is given by the local day numbers that it skipped (Samoa had no
  30 December 2011) and by the first and the last local day whose midnight is a
  time value (ECMAScript bounds time values by 100,000,000 days on either side of
  1 January 1970 UTC). A \<^verbatim>\<open>Date\<close> is \<open>None\<close> when it is invalid and a number is \<open>None\<close>
  when it is \<^verbatim>\<open>NaN\<close>. \<^verbatim>\<open>new Date(year, month, date)\<close> is invalid when an argument is
  \<^verbatim>\<open>NaN\<close> or the day is out of range; a local midnight that the zone skipped is read
  with the offset before the gap, which makes it the midnight of the next day.
  \<^verbatim>\<open>===\<close> is false when one side is \<^verbatim>\<open>NaN\<close>. The functions are those of the first
  section, on these values.
\<close>

record TimeZone =
  skippedDays :: "int list"
  firstDay :: int
  lastDay :: int

type_synonym DateObject = "int option"

definition newDate_tz :: "TimeZone \<Rightarrow> int option \<Rightarrow> int option \<Rightarrow> int option \<Rightarrow> DateObject" where
  "newDate_tz z year month date' =
     (case year of
        None \<Rightarrow> None
      | Some y \<Rightarrow>
          (case month of
             None \<Rightarrow> None
           | Some m \<Rightarrow>
               (case date' of
                  None \<Rightarrow> None
                | Some d \<Rightarrow>
                    (let day = MakeDay (if 0 \<le> y \<and> y \<le> 99 then 1900 + y else y) m d;
                         local = (if day \<in> set (skippedDays z) then day + 1 else day)
                     in if firstDay z \<le> local \<and> local \<le> lastDay z then Some local else None))))"

definition getFullYear_tz :: "DateObject \<Rightarrow> int option" where
  "getFullYear_tz d = map_option YearFromTime d"

definition getMonth_tz :: "DateObject \<Rightarrow> int option" where
  "getMonth_tz d = map_option MonthFromTime d"

definition getDate_tz :: "DateObject \<Rightarrow> int option" where
  "getDate_tz d = map_option DateFromTime d"

definition getDay_tz :: "DateObject \<Rightarrow> int option" where
  "getDay_tz d = map_option WeekDay d"

definition plus_number :: "int option \<Rightarrow> int option \<Rightarrow> int option" where
  "plus_number a b = (case a of None \<Rightarrow> None | Some x \<Rightarrow> map_option (\<lambda>y. x + y) b)"

definition strictEquals :: "int option \<Rightarrow> int option \<Rightarrow> bool" where
  "strictEquals a b = (case a of None \<Rightarrow> False | Some x \<Rightarrow> (case b of None \<Rightarrow> False | Some y \<Rightarrow> x = y))"

definition startOfMonth_tz :: "TimeZone \<Rightarrow> DateObject \<Rightarrow> DateObject" where
  "startOfMonth_tz z d = newDate_tz z (getFullYear_tz d) (getMonth_tz d) (Some 1)"

definition endOfMonth_tz :: "TimeZone \<Rightarrow> DateObject \<Rightarrow> DateObject" where
  "endOfMonth_tz z d = newDate_tz z (getFullYear_tz d) (plus_number (getMonth_tz d) (Some 1)) (Some 0)"

definition addDays_tz :: "TimeZone \<Rightarrow> DateObject \<Rightarrow> int option \<Rightarrow> DateObject" where
  "addDays_tz z d n = newDate_tz z (getFullYear_tz d) (getMonth_tz d) (plus_number (getDate_tz d) n)"

definition sameDay_tz :: "DateObject \<Rightarrow> DateObject \<Rightarrow> bool" where
  "sameDay_tz a b \<longleftrightarrow>
     strictEquals (getFullYear_tz a) (getFullYear_tz b)
     \<and> strictEquals (getMonth_tz a) (getMonth_tz b)
     \<and> strictEquals (getDate_tz a) (getDate_tz b)"

definition mondayFirstDow_tz :: "DateObject \<Rightarrow> int option" where
  "mondayFirstDow_tz d = (let js = getDay_tz d in map_option (\<lambda>j. (j + 6) mod 7) js)"

record cell_tz =
  date_tz :: DateObject
  inMonth_tz :: bool
  isToday_tz :: bool

record MonthDays_tz =
  start_tz :: DateObject
  end_tz :: DateObject
  cells_tz :: "cell_tz list"

function cellsLoop_tz ::
  "TimeZone \<Rightarrow> DateObject \<Rightarrow> DateObject \<Rightarrow> DateObject \<Rightarrow> nat \<Rightarrow> cell_tz list \<Rightarrow> cell_tz list" where
  "cellsLoop_tz z firstCell cursor' today' i cs =
     (if i < 42
      then (let d = addDays_tz z firstCell (Some (int i))
            in cellsLoop_tz z firstCell cursor' today' (i + 1)
                 (cs @ [\<lparr>date_tz = d,
                          inMonth_tz = strictEquals (getMonth_tz d) (getMonth_tz cursor'),
                          isToday_tz = sameDay_tz d today'\<rparr>]))
      else cs)"
  by pat_completeness auto
termination
  by (relation "measure (\<lambda>(z, firstCell, cursor', today', i, cs). 42 - i)") auto

definition monthDays_tz :: "TimeZone \<Rightarrow> DateObject \<Rightarrow> DateObject \<Rightarrow> MonthDays_tz" where
  "monthDays_tz z cursor' today' =
     (let start = startOfMonth_tz z cursor';
          end = endOfMonth_tz z cursor';
          firstCell = addDays_tz z start (map_option uminus (mondayFirstDow_tz start));
          cells = cellsLoop_tz z firstCell cursor' today' 0 []
      in \<lparr>start_tz = start, end_tz = end, cells_tz = cells\<rparr>)"

definition gridCell_tz :: "TimeZone \<Rightarrow> DateObject \<Rightarrow> DateObject \<Rightarrow> DateObject \<Rightarrow> nat \<Rightarrow> cell_tz" where
  "gridCell_tz z firstCell cursor' today' i =
     \<lparr>date_tz = addDays_tz z firstCell (Some (int i)),
      inMonth_tz = strictEquals (getMonth_tz (addDays_tz z firstCell (Some (int i))))
                     (getMonth_tz cursor'),
      isToday_tz = sameDay_tz (addDays_tz z firstCell (Some (int i))) today'\<rparr>"

text \<open>
  Two zones: \<^verbatim>\<open>Pacific/Apia\<close>, whose only skipped day is 30 December 2011, and UTC.
\<close>

definition apia :: TimeZone where
  "apia = \<lparr>skippedDays = [MakeDay 2011 11 30], firstDay = - 99999999, lastDay = 100000000\<rparr>"

definition utc :: TimeZone where
  "utc = \<lparr>skippedDays = [], firstDay = - 100000000, lastDay = 100000000\<rparr>"

section \<open>Notions used to state the properties\<close>

text \<open>
  A history of writes, for the statement about pairs that were never written: each
  write is one call of \<open>setStatusInAvailability\<close>.
\<close>

fun applyWrites :: "Availability \<Rightarrow> (string \<times> string \<times> Status) list \<Rightarrow> Availability" where
  "applyWrites a [] = a"
| "applyWrites a ((p, d, s) # ws) = applyWrites (setStatusInAvailability a p d s) ws"

text \<open>The boolean stored for a person and a day, if any.\<close>

definition lookup2 :: "Availability \<Rightarrow> string \<Rightarrow> string \<Rightarrow> bool option" where
  "lookup2 a p d = (case a p of None \<Rightarrow> None | Some per \<Rightarrow> per d)"

text \<open>The last of the rows of a query result that carry a given person and day.\<close>

definition lastRowFor :: "string \<Rightarrow> string \<Rightarrow> row list \<Rightarrow> row option" where
  "lastRowFor p d rows =
     (case filter (\<lambda>r. row_person_id r = p \<and> row_day r = d) rows of
        [] \<Rightarrow> None
      | r # rs \<Rightarrow> Some (last (r # rs)))"

text \<open>
  The scenario of the specification: two people, of whom the first has one
  unavailable day in the window of February 2026 and the second has none.
\<close>

definition scenarioState :: AppState where
  "scenarioState =
     \<lparr>today = newDate 2026 1 10,
      cursor = newDate 2026 1 1,
      people = [\<lparr>id' = ''A'', name = ''Alice'', color = ''#1a73e8''\<rparr>,
                \<lparr>id' = ''B'', name = ''Ben'', color = ''#34a853''\<rparr>],
      selectedIds = {''A'', ''B''},
      availability = setStatusInAvailability Map.empty ''A'' ''2026-02-10'' unavailable,
      currentUserId = ''A'',
      showMode = Show_all\<rparr>"

section \<open>The calendar arithmetic\<close>

lemma div_succ:
  fixes x n :: int
  assumes "0 < n"
  shows "(x + 1) div n = x div n + (if (x + 1) mod n = 0 then 1 else 0)"
proof (cases "x mod n + 1 < n")
  case True
  have e: "x + 1 = n * (x div n) + (x mod n + 1)" by simp
  have r0: "0 \<le> x mod n + 1" using assms by (simp add: add_nonneg_nonneg)
  have "(x + 1) div n = x div n" by (rule int_div_pos_eq [OF e r0 True])
  moreover have "(x + 1) mod n = x mod n + 1" by (rule int_mod_pos_eq [OF e r0 True])
  moreover have "0 \<le> x mod n" using assms by simp
  ultimately show ?thesis by simp
next
  case False
  have "x mod n < n" using assms by simp
  with False have m: "x mod n = n - 1" by simp
  have e: "x + 1 = n * (x div n + 1) + 0"
    using div_mult_mod_eq [of x n] m by (simp add: algebra_simps)
  have "(x + 1) div n = x div n + 1" by (rule int_div_pos_eq [OF e]) (use assms in simp_all)
  moreover have "(x + 1) mod n = 0" by (rule int_mod_pos_eq [OF e]) (use assms in simp_all)
  ultimately show ?thesis by simp
qed

lemma mod_shift: "(y - n * k) mod n = y mod n" for y n k :: int
  using mod_mult_self1 [of y "- k" n] by (simp add: algebra_simps)

lemma step4: "(y - 1968) div 4 = (y - 1969) div 4 + (if y mod 4 = 0 then 1 else 0)" for y :: int
proof -
  have "(y - 4 * 492) mod 4 = y mod 4" by (rule mod_shift)
  then have m: "(y - 1968) mod 4 = y mod 4" by simp
  have "((y - 1969) + 1) div 4 = (y - 1969) div 4 + (if ((y - 1969) + 1) mod 4 = 0 then 1 else 0)"
    by (rule div_succ) simp
  moreover have "(y - 1969) + 1 = y - 1968" by simp
  ultimately show ?thesis using m by simp
qed

lemma step100:
  "(y - 1900) div 100 = (y - 1901) div 100 + (if y mod 100 = 0 then 1 else 0)" for y :: int
proof -
  have "(y - 100 * 19) mod 100 = y mod 100" by (rule mod_shift)
  then have m: "(y - 1900) mod 100 = y mod 100" by simp
  have "((y - 1901) + 1) div 100 =
        (y - 1901) div 100 + (if ((y - 1901) + 1) mod 100 = 0 then 1 else 0)"
    by (rule div_succ) simp
  moreover have "(y - 1901) + 1 = y - 1900" by simp
  ultimately show ?thesis using m by simp
qed

lemma step400:
  "(y - 1600) div 400 = (y - 1601) div 400 + (if y mod 400 = 0 then 1 else 0)" for y :: int
proof -
  have "(y - 400 * 4) mod 400 = y mod 400" by (rule mod_shift)
  then have m: "(y - 1600) mod 400 = y mod 400" by simp
  have "((y - 1601) + 1) div 400 =
        (y - 1601) div 400 + (if ((y - 1601) + 1) mod 400 = 0 then 1 else 0)"
    by (rule div_succ) simp
  moreover have "(y - 1601) + 1 = y - 1600" by simp
  ultimately show ?thesis using m by simp
qed

lemma mod100_imp_mod4: "y mod 100 = 0 \<Longrightarrow> y mod 4 = 0" for y :: int
proof -
  assume "y mod 100 = 0"
  then have "100 dvd y" by (simp add: dvd_eq_mod_eq_0)
  moreover have "(4::int) dvd 100" by simp
  ultimately have "4 dvd y" by (rule dvd_trans [rotated])
  then show ?thesis by (simp add: dvd_eq_mod_eq_0)
qed

lemma mod400_imp_mod100: "y mod 400 = 0 \<Longrightarrow> y mod 100 = 0" for y :: int
proof -
  assume "y mod 400 = 0"
  then have "400 dvd y" by (simp add: dvd_eq_mod_eq_0)
  moreover have "(100::int) dvd 400" by simp
  ultimately have "100 dvd y" by (rule dvd_trans [rotated])
  then show ?thesis by (simp add: dvd_eq_mod_eq_0)
qed

text \<open>The day on which a year starts, year by year.\<close>

lemma DayFromYear_Suc: "DayFromYear (y + 1) = DayFromYear y + DaysInYear y"
proof -
  have "DayFromYear (y + 1) =
        365 * (y - 1969) + (y - 1968) div 4 - (y - 1900) div 100 + (y - 1600) div 400"
    by (simp add: DayFromYear_def)
  also have "\<dots> = DayFromYear y + 365 + (if y mod 4 = 0 then 1 else 0)
                  - (if y mod 100 = 0 then 1 else 0) + (if y mod 400 = 0 then 1 else 0)"
    unfolding step4 step100 step400 DayFromYear_def by simp
  also have "\<dots> = DayFromYear y + DaysInYear y"
    using mod100_imp_mod4 [of y] mod400_imp_mod100 [of y]
    by (simp add: DaysInYear_def)
  finally show ?thesis .
qed

lemma DaysInYear_range: "DaysInYear y = 365 \<or> DaysInYear y = 366"
  by (simp add: DaysInYear_def)

lemma DayFromYear_pred: "DayFromYear (y - 1) < DayFromYear y"
  using DayFromYear_Suc [of "y - 1"] DaysInYear_range [of "y - 1"] by auto

text \<open>The search for the year stops: the years before \<open>y\<close> start earlier and earlier.\<close>

termination yearSearch
proof (relation "measure (\<lambda>(y, t). nat (DayFromYear y - t))")
  show "wf (measure (\<lambda>(y, t). nat (DayFromYear y - t)))" by simp
next
  fix y t :: int
  assume "\<not> DayFromYear y \<le> t"
  then show "((y - 1, t), (y, t)) \<in> measure (\<lambda>(y, t). nat (DayFromYear y - t))"
    using DayFromYear_pred [of y] by simp
qed

declare yearSearch.simps [simp del]
declare digits.simps [simp del]
declare cellsLoop.simps [simp del]

lemma DayFromYear_mono: "y \<le> z \<Longrightarrow> DayFromYear y \<le> DayFromYear z"
proof (induction z rule: int_ge_induct)
  case base
  show ?case by simp
next
  case (step i)
  then show ?case
    using DayFromYear_Suc [of i] DaysInYear_range [of i] by auto
qed

lemma DayFromYear_ge_1970: "1970 \<le> y \<Longrightarrow> 365 * (y - 1970) \<le> DayFromYear y"
proof (induction y rule: int_ge_induct)
  case base
  show ?case by (simp add: DayFromYear_def)
next
  case (step i)
  then show ?case
    using DayFromYear_Suc [of i] DaysInYear_range [of i] by auto
qed

lemma DayFromYear_le_1970: "y \<le> 1970 \<Longrightarrow> 366 * (y - 1970) \<le> DayFromYear y"
proof (induction y rule: int_le_induct)
  case base
  show ?case by (simp add: DayFromYear_def)
next
  case (step i)
  then show ?case
    using DayFromYear_Suc [of "i - 1"] DaysInYear_range [of "i - 1"] by auto
qed

lemma yearSearch_le: "DayFromYear (yearSearch y t) \<le> t"
  by (induction y t rule: yearSearch.induct) (simp add: yearSearch.simps)

lemma yearSearch_gt: "t < DayFromYear (y + 1) \<Longrightarrow> t < DayFromYear (yearSearch y t + 1)"
proof (induction y t rule: yearSearch.induct)
  case (1 y t)
  show ?case
  proof (cases "DayFromYear y \<le> t")
    case True
    then show ?thesis using "1.prems" by (simp add: yearSearch.simps)
  next
    case False
    then have "t < DayFromYear (y - 1 + 1)" by simp
    from "1.IH" [OF False this] show ?thesis using False
      by (simp add: yearSearch.simps [of y t])
  qed
qed

lemma start_bound: "t < DayFromYear (1970 + max (t div 365) (t div 366) + 1)"
proof (cases "0 \<le> t")
  case True
  define k where "k = t div 365"
  define r where "r = t mod 365"
  have k0: "0 \<le> k" using True by (simp add: k_def pos_imp_zdiv_nonneg_iff)
  have "t = 365 * k + r" by (simp add: k_def r_def)
  moreover have "r < 365" by (simp add: r_def)
  ultimately have "t < 365 * (k + 1)" by simp
  also have "\<dots> \<le> DayFromYear (1970 + k + 1)"
    using DayFromYear_ge_1970 [of "1970 + k + 1"] k0 by simp
  also have "\<dots> \<le> DayFromYear (1970 + max (t div 365) (t div 366) + 1)"
    by (rule DayFromYear_mono) (simp add: k_def)
  finally show ?thesis .
next
  case False
  define k where "k = t div 366"
  define r where "r = t mod 366"
  have k0: "k < 0" using False by (simp add: k_def div_neg_pos_less0)
  have "t = 366 * k + r" by (simp add: k_def r_def)
  moreover have "r < 366" by (simp add: r_def)
  ultimately have "t < 366 * (k + 1)" by simp
  also have "\<dots> \<le> DayFromYear (1970 + k + 1)"
    using DayFromYear_le_1970 [of "1970 + k + 1"] k0 by simp
  also have "\<dots> \<le> DayFromYear (1970 + max (t div 365) (t div 366) + 1)"
    by (rule DayFromYear_mono) (simp add: k_def)
  finally show ?thesis .
qed

text \<open>\<open>YearFromTime\<close> is the year in which the day lies, and the only one.\<close>

lemma YearFromTime_bounds:
  "DayFromYear (YearFromTime t) \<le> t \<and> t < DayFromYear (YearFromTime t + 1)"
  unfolding YearFromTime_def
  using yearSearch_le yearSearch_gt [OF start_bound] by simp

lemma YearFromTime_unique:
  assumes "DayFromYear y \<le> t" and "t < DayFromYear (y + 1)"
  shows "YearFromTime t = y"
proof (rule ccontr)
  assume ne: "YearFromTime t \<noteq> y"
  note b = YearFromTime_bounds [of t]
  show False
  proof (cases "YearFromTime t < y")
    case True
    then have "DayFromYear (YearFromTime t + 1) \<le> DayFromYear y"
      by (intro DayFromYear_mono) simp
    with b assms show False by simp
  next
    case False
    with ne have "DayFromYear (y + 1) \<le> DayFromYear (YearFromTime t)"
      by (intro DayFromYear_mono) simp
    with b assms show False by simp
  qed
qed

lemma YearFromTime_ge: "DayFromYear y \<le> t \<Longrightarrow> y \<le> YearFromTime t"
proof (rule ccontr)
  assume a: "DayFromYear y \<le> t" and "\<not> y \<le> YearFromTime t"
  then have "DayFromYear (YearFromTime t + 1) \<le> DayFromYear y"
    by (intro DayFromYear_mono) simp
  with a YearFromTime_bounds [of t] show False by simp
qed

lemma YearFromTime_lt: "t < DayFromYear y \<Longrightarrow> YearFromTime t < y"
proof (rule ccontr)
  assume a: "t < DayFromYear y" and "\<not> YearFromTime t < y"
  then have "DayFromYear y \<le> DayFromYear (YearFromTime t)"
    by (intro DayFromYear_mono) simp
  with a YearFromTime_bounds [of t] show False by simp
qed

lemma DayWithinYear_range:
  "0 \<le> DayWithinYear t \<and> DayWithinYear t < DaysInYear (YearFromTime t)"
  using YearFromTime_bounds [of t] DayFromYear_Suc [of "YearFromTime t"]
  by (simp add: DayWithinYear_def)

lemma MonthFromTime_range: "0 \<le> MonthFromTime t \<and> MonthFromTime t \<le> 11"
  by (simp add: MonthFromTime_def Let_def)

lemma Date_reconstruct:
  "DayFromYear (YearFromTime t) + monthStart (MonthFromTime t) (InLeapYear t)
     + DateFromTime t - 1 = t"
  by (simp add: DateFromTime_def DayWithinYear_def)

lemma monthStart_bounds:
  "0 \<le> m \<Longrightarrow> m \<le> 11 \<Longrightarrow> 0 \<le> l \<Longrightarrow> 0 \<le> monthStart m l \<and> monthStart m l \<le> 334 + l"
  by (simp add: monthStart_def)

text \<open>The first of a month has the year, the month and the date it was built from.\<close>

lemma MakeDay_first:
  assumes m: "0 \<le> m" "m \<le> 11"
  shows "YearFromTime (MakeDay y m 1) = y
       \<and> MonthFromTime (MakeDay y m 1) = m
       \<and> DateFromTime (MakeDay y m 1) = 1"
proof -
  define l :: int where "l = (if DaysInYear y = 366 then 1 else 0)"
  define t where "t = DayFromYear y + monthStart m l"
  have md: "m div 12 = 0" "m mod 12 = m" using m by simp_all
  have t: "MakeDay y m 1 = t" by (simp add: MakeDay_def md t_def l_def)
  have l0: "0 \<le> l" by (simp add: l_def)
  have ms: "0 \<le> monthStart m l" "monthStart m l \<le> 334 + l"
    using monthStart_bounds [OF m l0] by simp_all
  have dy: "334 + l < DaysInYear y" using DaysInYear_range [of y] by (auto simp: l_def)
  have "DayFromYear y \<le> t" using ms by (simp add: t_def)
  moreover have "t < DayFromYear (y + 1)" using ms dy by (simp add: t_def DayFromYear_Suc)
  ultimately have Y: "YearFromTime t = y" by (rule YearFromTime_unique)
  have L: "InLeapYear t = l" by (simp add: InLeapYear_def Y l_def)
  have W: "DayWithinYear t = monthStart m l"
    unfolding DayWithinYear_def Y by (simp add: t_def)
  have l1: "l = 0 \<or> l = 1" by (auto simp: l_def)
  have m12: "m = 0 \<or> m = 1 \<or> m = 2 \<or> m = 3 \<or> m = 4 \<or> m = 5 \<or> m = 6 \<or> m = 7 \<or> m = 8 \<or> m = 9
             \<or> m = 10 \<or> m = 11"
    using m by arith
  have M: "MonthFromTime t = m"
    unfolding MonthFromTime_def L W Let_def
    using m12 l1 by (elim disjE) (simp_all add: monthStart_def)
  have D: "DateFromTime t = 1" by (simp add: DateFromTime_def M L W)
  show ?thesis using Y M D by (simp add: t)
qed

lemma MakeDay_same: "MakeDay (YearFromTime t) (MonthFromTime t) (DateFromTime t) = t"
proof -
  have md: "MonthFromTime t div 12 = 0" "MonthFromTime t mod 12 = MonthFromTime t"
    using MonthFromTime_range [of t] by simp_all
  show ?thesis
    using Date_reconstruct [of t] by (simp add: MakeDay_def md InLeapYear_def)
qed

section \<open>The date utilities and the grid\<close>

lemma addDays_linear: "addDays d n = addDays d 0 + n"
  by (simp add: addDays_def newDate_def MakeDay_def Let_def)

text \<open>Outside the years 0 to 99, \<open>addDays\<close> adds days.\<close>

lemma addDays_plain:
  assumes "getFullYear d < 0 \<or> 99 < getFullYear d"
  shows "addDays d n = d + n"
proof -
  have "addDays d 0 = MakeDay (YearFromTime d) (MonthFromTime d) (DateFromTime d)"
    using assms by (auto simp: addDays_def newDate_def getFullYear_def getMonth_def getDate_def)
  then show ?thesis using addDays_linear [of d n] by (simp add: MakeDay_same)
qed

lemma sameDay_iff: "sameDay a b \<longleftrightarrow> a = b"
proof
  assume s: "sameDay a b"
  then have Y: "YearFromTime a = YearFromTime b" and M: "MonthFromTime a = MonthFromTime b"
    and D: "DateFromTime a = DateFromTime b"
    by (simp_all add: sameDay_def getFullYear_def getMonth_def getDate_def)
  have L: "InLeapYear a = InLeapYear b" by (simp add: InLeapYear_def Y)
  have "a = DayFromYear (YearFromTime a) + monthStart (MonthFromTime a) (InLeapYear a)
            + DateFromTime a - 1"
    by (rule Date_reconstruct [symmetric])
  also have "\<dots> = DayFromYear (YearFromTime b) + monthStart (MonthFromTime b) (InLeapYear b)
            + DateFromTime b - 1"
    by (simp only: Y M D L)
  also have "\<dots> = b" by (rule Date_reconstruct)
  finally show "a = b" .
next
  assume "a = b"
  then show "sameDay a b" by (simp add: sameDay_def)
qed

lemma cellsLoop_map:
  "i \<le> 42 \<Longrightarrow> cellsLoop f c t i cs = cs @ map (gridCell f c t) [i..<42]"
proof (induction f c t i cs rule: cellsLoop.induct)
  case (1 f c t i cs)
  show ?case
  proof (cases "i < 42")
    case True
    then have "[i..<42] = i # [i + 1..<42]" by (simp add: upt_conv_Cons)
    moreover have "cellsLoop f c t (i + 1) (cs @ [gridCell f c t i])
          = (cs @ [gridCell f c t i]) @ map (gridCell f c t) [i + 1..<42]"
      using "1.IH" [OF True refl] True by (simp add: gridCell_def)
    ultimately show ?thesis using True
      by (simp add: cellsLoop.simps [of f c t i cs] gridCell_def Let_def)
  next
    case False
    with "1.prems" have "i = 42" by simp
    then show ?thesis by (simp add: cellsLoop.simps [of f c t 42 cs])
  qed
qed

lemma cells_monthDays:
  "cells (monthDays c t) =
     map (gridCell (addDays (startOfMonth c) (- mondayFirstDow (startOfMonth c))) c t) [0..<42]"
  by (simp add: monthDays_def Let_def cellsLoop_map)

lemma length_cells: "length (cells (monthDays c t)) = 42"
  by (simp add: cells_monthDays)

lemma cells_nonempty: "cells (monthDays c t) \<noteq> []"
  using length_cells [of c t] by auto

lemma date_cell:
  "i < 42 \<Longrightarrow>
   date (cells (monthDays c t) ! i) =
     addDays (addDays (startOfMonth c) (- mondayFirstDow (startOfMonth c))) 0 + int i"
  using addDays_linear [of "addDays (startOfMonth c) (- mondayFirstDow (startOfMonth c))" "int i"]
  by (simp add: cells_monthDays gridCell_def)

text \<open>In the first layer, consecutive cells are consecutive days.\<close>

lemma cells_consecutive:
  "i + 1 < 42 \<Longrightarrow>
   date (cells (monthDays c t) ! (i + 1)) = date (cells (monthDays c t) ! i) + 1"
  by (simp add: date_cell)

lemma startOfMonth_plain:
  assumes "getFullYear c < 0 \<or> 99 < getFullYear c"
  shows "startOfMonth c = MakeDay (getFullYear c) (getMonth c) 1"
    and "getFullYear (startOfMonth c) = getFullYear c"
    and "getMonth (startOfMonth c) = getMonth c"
    and "getDate (startOfMonth c) = 1"
    and "startOfMonth c \<le> c"
proof -
  show s: "startOfMonth c = MakeDay (getFullYear c) (getMonth c) 1"
    using assms by (auto simp: startOfMonth_def newDate_def)
  have m: "0 \<le> getMonth c" "getMonth c \<le> 11"
    using MonthFromTime_range [of c] by (simp_all add: getMonth_def)
  note r = MakeDay_first [OF m, of "getFullYear c"]
  show "getFullYear (startOfMonth c) = getFullYear c" using r by (simp add: s getFullYear_def)
  show "getMonth (startOfMonth c) = getMonth c" using r by (simp add: s getMonth_def)
  show "getDate (startOfMonth c) = 1" using r by (simp add: s getDate_def)
  have "MakeDay (YearFromTime c) (MonthFromTime c) 1
        = MakeDay (YearFromTime c) (MonthFromTime c) (DateFromTime c) + (1 - DateFromTime c)"
    by (simp add: MakeDay_def Let_def)
  moreover have "1 \<le> DateFromTime c"
  proof -
    have w: "0 \<le> DayWithinYear c" using DayWithinYear_range [of c] by simp
    have l: "InLeapYear c = 0 \<or> InLeapYear c = 1" by (auto simp: InLeapYear_def)
    have "monthStart (MonthFromTime c) (InLeapYear c) \<le> DayWithinYear c"
      unfolding MonthFromTime_def Let_def monthStart_def using w l by auto
    then show ?thesis by (simp add: DateFromTime_def)
  qed
  ultimately show "startOfMonth c \<le> c"
    by (simp add: s getFullYear_def getMonth_def MakeDay_same)
qed

lemma monday_before:
  fixes s :: int
  shows "(s - ((s + 4) mod 7 + 6) mod 7 + 4) mod 7 = 1"
    and "0 \<le> ((s + 4) mod 7 + 6) mod 7" and "((s + 4) mod 7 + 6) mod 7 \<le> 6"
  by presburger+

lemma firstCell_plain:
  assumes y: "getFullYear c < 0 \<or> 100 < getFullYear c"
  shows "addDays (startOfMonth c) (- mondayFirstDow (startOfMonth c))
         = startOfMonth c - mondayFirstDow (startOfMonth c)"
    and "getFullYear (addDays (startOfMonth c) (- mondayFirstDow (startOfMonth c))) < 0
         \<or> 99 < getFullYear (addDays (startOfMonth c) (- mondayFirstDow (startOfMonth c)))"
proof -
  define s where "s = startOfMonth c"
  define f where "f = addDays s (- mondayFirstDow s)"
  have y': "getFullYear c < 0 \<or> 99 < getFullYear c" using y by auto
  have sm: "getFullYear s = getFullYear c"
    using startOfMonth_plain(2) [OF y'] by (simp add: s_def)
  have ys: "getFullYear s < 0 \<or> 99 < getFullYear s" using y' sm by simp
  have f: "f = s - mondayFirstDow s"
    unfolding f_def using addDays_plain [OF ys] by simp
  have k: "0 \<le> mondayFirstDow s" "mondayFirstDow s \<le> 6"
    using monday_before(2,3) [of s] by (simp_all add: mondayFirstDow_def getDay_def WeekDay_def)
  note b = YearFromTime_bounds [of s]
  have "getFullYear f < 0 \<or> 99 < getFullYear f"
  proof (cases "getFullYear c < 0")
    case True
    then have "YearFromTime s + 1 \<le> 0" using sm by (simp add: getFullYear_def)
    then have "DayFromYear (YearFromTime s + 1) \<le> DayFromYear 0" by (rule DayFromYear_mono)
    with b k f have "f < DayFromYear 0" by simp
    then have "YearFromTime f < 0" by (rule YearFromTime_lt)
    then show ?thesis by (simp add: getFullYear_def)
  next
    case False
    with y have "101 \<le> YearFromTime s" using sm by (simp add: getFullYear_def)
    then have "DayFromYear 101 \<le> DayFromYear (YearFromTime s)" by (rule DayFromYear_mono)
    moreover have "DayFromYear 101 = DayFromYear 100 + 365"
      using DayFromYear_Suc [of 100] by (simp add: DaysInYear_def)
    ultimately have "DayFromYear 100 \<le> f" using b k f by simp
    then have "100 \<le> YearFromTime f" by (rule YearFromTime_ge)
    then show ?thesis by (simp add: getFullYear_def)
  qed
  then show "getFullYear (addDays (startOfMonth c) (- mondayFirstDow (startOfMonth c))) < 0
         \<or> 99 < getFullYear (addDays (startOfMonth c) (- mondayFirstDow (startOfMonth c)))"
    by (simp add: f_def s_def)
  show "addDays (startOfMonth c) (- mondayFirstDow (startOfMonth c))
         = startOfMonth c - mondayFirstDow (startOfMonth c)"
    using f by (simp add: f_def s_def)
qed

text \<open>
  In the first layer, for a cursor whose year is negative or greater than 100, the
  grid is the one the comment of the source announces: 42 cells, the first on the
  Monday on or before the first day of the cursor's month, a Monday again at
  index 7.
\<close>

lemma grid_monday_first:
  assumes "getFullYear c < 0 \<or> 100 < getFullYear c"
  shows "length (cells (monthDays c t)) = 42
       \<and> getDay (date (cells (monthDays c t) ! 0)) = 1
       \<and> date (cells (monthDays c t) ! 0) \<le> startOfMonth c
       \<and> startOfMonth c - date (cells (monthDays c t) ! 0) \<le> 6
       \<and> getFullYear (startOfMonth c) = getFullYear c
       \<and> getMonth (startOfMonth c) = getMonth c
       \<and> getDate (startOfMonth c) = 1
       \<and> getDay (date (cells (monthDays c t) ! 7)) = 1"
proof -
  define s where "s = startOfMonth c"
  define f where "f = addDays s (- mondayFirstDow s)"
  have y': "getFullYear c < 0 \<or> 99 < getFullYear c" using assms by auto
  note sm = startOfMonth_plain [OF y']
  have fc: "f = s - mondayFirstDow s" "getFullYear f < 0 \<or> 99 < getFullYear f"
    using firstCell_plain [OF assms] by (simp_all add: f_def s_def)
  have f0: "addDays f 0 = f" using addDays_plain [OF fc(2), of 0] by simp
  have d: "date (cells (monthDays c t) ! i) = f + int i" if "i < 42" for i
    using date_cell [OF that, of c t] by (simp add: f0 s_def [symmetric] f_def [symmetric])
  have k: "0 \<le> mondayFirstDow s" "mondayFirstDow s \<le> 6"
    using monday_before(2,3) [of s] by (simp_all add: mondayFirstDow_def getDay_def WeekDay_def)
  have w: "getDay f = 1"
    using monday_before(1) [of s] by (simp add: fc(1) mondayFirstDow_def getDay_def WeekDay_def)
  have "(f + 7 + 4) mod 7 = (f + 4) mod 7" by presburger
  then have w7: "getDay (f + 7) = 1" using w by (simp only: getDay_def WeekDay_def)
  have d0: "date (cells (monthDays c t) ! 0) = f" using d [of 0] by simp
  have d7: "date (cells (monthDays c t) ! 7) = f + 7" using d [of 7] by simp
  show ?thesis
    unfolding d0 d7 using length_cells w w7 k fc(1) sm(2,3,4)
    by (simp add: s_def [symmetric])
qed

text \<open>The scenario of the specification: the grid of February 2026 starts on 26 January.\<close>

lemma february_2026_first_cell: "date (cells (monthDays (newDate 2026 1 1) t) ! 0) = 20479"
proof -
  have "addDays (addDays (startOfMonth (newDate 2026 1 1))
          (- mondayFirstDow (startOfMonth (newDate 2026 1 1)))) 0 = 20479"
    by code_simp
  then show ?thesis using date_cell [of 0 "newDate 2026 1 1" t] by simp
qed

lemma grid_february_2026:
  "isoDate (newDate 2026 1 1) = ''2026-02-01''
   \<and> getDay (newDate 2026 1 1) = 0
   \<and> isoDate (date (cells (monthDays (newDate 2026 1 1) t) ! 0)) = ''2026-01-26''
   \<and> getDay (date (cells (monthDays (newDate 2026 1 1) t) ! 0)) = 1"
proof -
  have "isoDate (newDate 2026 1 1) = ''2026-02-01'' \<and> getDay (newDate 2026 1 1) = 0
        \<and> isoDate 20479 = ''2026-01-26'' \<and> getDay 20479 = 1"
    by code_simp
  then show ?thesis by (simp add: february_2026_first_cell)
qed

lemma count_offset:
  "length (filter (\<lambda>i. b + int i = t) [0..<n]) = (if b \<le> t \<and> t < b + int n then 1 else 0)"
proof (induction n)
  case 0
  show ?case by simp
next
  case (Suc n)
  then show ?case by auto
qed

section \<open>The availability model and the handlers\<close>

lemma getStatus_cases:
  "getStatusFromAvailability a p d =
     (if (\<exists>per. a p = Some per \<and> per d = Some False) then unavailable else available)"
  by (auto simp: getStatusFromAvailability_def split: option.splits)

lemma getStatus_set_same:
  "getStatusFromAvailability (setStatusInAvailability a p d s) p d = s"
  by (cases s) (simp_all add: getStatusFromAvailability_def setStatusInAvailability_def)

lemma getStatus_set_other:
  "(p', d') \<noteq> (p, d) \<Longrightarrow>
   getStatusFromAvailability (setStatusInAvailability a p d s) p' d' =
   getStatusFromAvailability a p' d'"
  by (auto simp: getStatusFromAvailability_def setStatusInAvailability_def
           split: option.splits)

lemma applyWrites_untouched:
  "\<forall>w \<in> set ws. (fst w, fst (snd w)) \<noteq> (p, d) \<Longrightarrow>
   getStatusFromAvailability (applyWrites a ws) p d = getStatusFromAvailability a p d"
proof (induction ws arbitrary: a)
  case Nil
  show ?case by simp
next
  case (Cons w ws)
  obtain q e s where w: "w = (q, e, s)" by (cases w)
  from Cons.prems have ne: "(p, d) \<noteq> (q, e)"
    and rest: "\<forall>w \<in> set ws. (fst w, fst (snd w)) \<noteq> (p, d)"
    by (auto simp: w)
  have "getStatusFromAvailability (applyWrites (setStatusInAvailability a q e s) ws) p d =
        getStatusFromAvailability (setStatusInAvailability a q e s) p d"
    by (rule Cons.IH [OF rest])
  also have "\<dots> = getStatusFromAvailability a p d"
    by (rule getStatus_set_other [OF ne])
  finally show ?case by (simp add: w)
qed

lemma getStatus_lookup2:
  "getStatusFromAvailability a p d =
     (case lookup2 a p d of None \<Rightarrow> available | Some b \<Rightarrow> if b then available else unavailable)"
  by (simp add: getStatusFromAvailability_def lookup2_def split: option.splits)

lemma lastRowFor_Cons:
  "lastRowFor p d (r # rs) =
     (case lastRowFor p d rs of
        Some r' \<Rightarrow> Some r'
      | None \<Rightarrow> if row_person_id r = p \<and> row_day r = d then Some r else None)"
  by (simp add: lastRowFor_def split: list.splits)

text \<open>What the loop over the rows leaves for a person and a day.\<close>

lemma lookup2_rowsLoop:
  "lookup2 (rowsLoop rows next) p d =
     (case lastRowFor p d rows of
        None \<Rightarrow> lookup2 next p d
      | Some r \<Rightarrow> Some (row_available r))"
proof (induction rows arbitrary: "next")
  case Nil
  show ?case by (simp add: lastRowFor_def)
next
  case (Cons r rs)
  define next2 where
    "next2 = (let next1 = (if next (row_person_id r) = None
                           then next(row_person_id r \<mapsto> Map.empty) else next)
              in case next1 (row_person_id r) of
                   None \<Rightarrow> next1
                 | Some per \<Rightarrow> next1(row_person_id r \<mapsto> per(row_day r \<mapsto> row_available r)))"
  have step: "rowsLoop (r # rs) next = rowsLoop rs next2"
    by (simp add: next2_def Let_def)
  have l2: "lookup2 next2 p d =
              (if row_person_id r = p \<and> row_day r = d then Some (row_available r)
               else lookup2 next p d)"
    by (auto simp: next2_def lookup2_def Let_def split: option.splits)
  show ?case
    unfolding step Cons.IH [of next2] lastRowFor_Cons l2
    by (auto split: option.splits)
qed

lemma scanCells_iff:
  "scanCells s pid cs \<longleftrightarrow> (\<exists>c \<in> set cs. getStatus s pid (isoDate (date c)) = unavailable)"
  by (induction cs) (simp_all add: Let_def)

lemma scanPeople_eq:
  "scanPeople s ps acc =
     acc \<union> {id' p | p. p \<in> set ps \<and> scanCells s (id' p) (cells (monthDays (cursor s) (today s)))}"
  by (induction ps arbitrary: acc) auto

lemma refresh_effects:
  "\<exists>rest. snd (refreshAvailability q s) =
     Select (isoDate (date (cells (monthDays (cursor s) (today s)) ! 0)))
            (isoDate (date (cells (monthDays (cursor s) (today s)) ! 41))) # rest"
  by (cases q) (simp_all add: refreshAvailability_def Let_def length_cells cells_nonempty)

lemma refresh_data:
  "fst (refreshAvailability (SelectData d) s) =
     s\<lparr>availability := rowsLoop (case d of None \<Rightarrow> [] | Some rs \<Rightarrow> rs) Map.empty\<rparr>"
  by (simp add: refreshAvailability_def Let_def length_cells cells_nonempty)

lemma refresh_error: "fst (refreshAvailability (SelectError e) s) = s"
  by (simp add: refreshAvailability_def Let_def length_cells cells_nonempty)

lemma setStatus_effects:
  "snd (setStatus p d st (UpsertError e) q s) =
     [SetAvailability (setStatusInAvailability (availability s) p d st),
      Upsert \<lparr>row_person_id = p, row_day = d, row_available = (st = available)\<rparr>,
      ConsoleError ''Failed to save availability'']
     @ snd (refreshAvailability q (s\<lparr>availability := setStatusInAvailability (availability s) p d st\<rparr>))"
  "snd (setStatus p d st UpsertOk q s) =
     [SetAvailability (setStatusInAvailability (availability s) p d st),
      Upsert \<lparr>row_person_id = p, row_day = d, row_available = (st = available)\<rparr>]
     @ snd (refreshAvailability q (s\<lparr>availability := setStatusInAvailability (availability s) p d st\<rparr>))"
  by (simp_all add: setStatus_def Let_def split: prod.splits)

lemma setStatus_state:
  "fst (setStatus p d st u q s) =
     fst (refreshAvailability q (s\<lparr>availability := setStatusInAvailability (availability s) p d st\<rparr>))"
  by (cases u) (simp_all add: setStatus_def Let_def split: prod.splits)

lemma scenario_iso: "isoDate (newDate 2026 1 10) = ''2026-02-10''"
  by code_simp

lemma february_2026_days:
  "newDate 2026 1 10 = 20494" "newDate 2026 3 10 = 20553" "isoDate 20494 = ''2026-02-10''"
  by code_simp+

lemma scenario_B_free: "getStatus scenarioState ''B'' x = available"
  by (simp add: scenarioState_def getStatus_def getStatusFromAvailability_def
        setStatusInAvailability_def)

lemma scenario_A_busy: "getStatus scenarioState ''A'' ''2026-02-10'' = unavailable"
  by (simp add: scenarioState_def getStatus_def getStatusFromAvailability_def
        setStatusInAvailability_def)

lemma scenario_A_hit:
  "\<exists>c \<in> set (cells (monthDays (cursor scenarioState) (today scenarioState))).
     getStatus scenarioState ''A'' (isoDate (date c)) = unavailable"
proof -
  let ?cs = "cells (monthDays (newDate 2026 1 1) (newDate 2026 1 10))"
  have cs: "cells (monthDays (cursor scenarioState) (today scenarioState)) = ?cs"
    by (simp add: scenarioState_def)
  have "date (?cs ! 15) = date (?cs ! 0) + 15"
    using date_cell [of 15 "newDate 2026 1 1" "newDate 2026 1 10"]
          date_cell [of 0 "newDate 2026 1 1" "newDate 2026 1 10"] by simp
  then have "date (?cs ! 15) = 20494" by (simp add: february_2026_first_cell)
  then have "getStatus scenarioState ''A'' (isoDate (date (?cs ! 15))) = unavailable"
    by (simp add: february_2026_days(3) scenario_A_busy)
  moreover have "?cs ! 15 \<in> set ?cs" by (rule nth_mem) (simp add: length_cells)
  ultimately show ?thesis unfolding cs by blast
qed

section \<open>The first layer: properties on plain keys\<close>

text \<open>
  On records read as maps of own properties the statements of the specification
  about the availability model hold as they are written. By \<open>getStatus_js_plain\<close>,
  \<open>setStatus_js_plain\<close> and \<open>rowsLoop_js_plain\<close> they are statements about the source
  for person ids and days that are plain keys; the section of the claims shows what
  the source does on the other keys.
\<close>

lemma plain_default_available:
  "(getStatusFromAvailability a p d = unavailable \<longleftrightarrow>
      (\<exists>per. a p = Some per \<and> per d = Some False))
   \<and> (a p = None \<longrightarrow> getStatusFromAvailability a p d = available)
   \<and> (\<forall>per. a p = Some per \<and> per d = None \<longrightarrow> getStatusFromAvailability a p d = available)
   \<and> (\<forall>per. a p = Some per \<and> per d = Some True \<longrightarrow> getStatusFromAvailability a p d = available)
   \<and> ((\<forall>w \<in> set ws. (fst w, fst (snd w)) \<noteq> (p, d)) \<longrightarrow>
        getStatusFromAvailability (applyWrites Map.empty ws) p d = available)"
proof -
  have never: "getStatusFromAvailability (applyWrites Map.empty ws) p d = available"
    if "\<forall>w \<in> set ws. (fst w, fst (snd w)) \<noteq> (p, d)"
    using applyWrites_untouched [OF that, of Map.empty]
    by (simp add: getStatusFromAvailability_def)
  show ?thesis
    using never by (auto simp: getStatus_cases)
qed

lemma plain_round_trip:
  "getStatusFromAvailability (setStatusInAvailability a p d unavailable) p d = unavailable
   \<and> getStatusFromAvailability
        (setStatusInAvailability (setStatusInAvailability a p d unavailable) p d available) p d
      = available"
  by (simp add: getStatus_set_same)

lemma plain_frame:
  "(p', d') \<noteq> (p, d) \<Longrightarrow>
   getStatusFromAvailability (setStatusInAvailability a p d s) p' d' =
   getStatusFromAvailability a p' d'"
  by (rule getStatus_set_other)

lemma plain_refresh_replaces_mapping:
  "availability (fst (refreshAvailability (SelectData (Some rows)) s)) = rowsLoop rows Map.empty
   \<and> getStatus (fst (refreshAvailability (SelectData (Some rows)) s)) p d =
       (case lastRowFor p d rows of
          None \<Rightarrow> available
        | Some r \<Rightarrow> if row_available r then available else unavailable)
   \<and> availability (fst (refreshAvailability (SelectData (Some rows)) s)) =
       availability (fst (refreshAvailability (SelectData (Some rows)) s'))
   \<and> availability (fst (refreshAvailability (SelectData None) s)) = Map.empty
   \<and> (\<exists>rest. snd (refreshAvailability (SelectData (Some rows)) s) =
         Select (isoDate (date (cells (monthDays (cursor s) (today s)) ! 0)))
                (isoDate (date (cells (monthDays (cursor s) (today s)) ! 41))) # rest)"
proof -
  have st: "getStatusFromAvailability (rowsLoop rows Map.empty) p d =
       (case lastRowFor p d rows of
          None \<Rightarrow> available
        | Some r \<Rightarrow> if row_available r then available else unavailable)"
  proof -
    have "lookup2 Map.empty p d = None" by (simp add: lookup2_def)
    then show ?thesis
      by (simp add: getStatus_lookup2 lookup2_rowsLoop split: option.splits)
  qed
  show ?thesis
    using st refresh_effects [of "SelectData (Some rows)" s]
    by (simp add: refresh_data getStatus_def)
qed

text \<open>
  In a time zone that skips no day and inside the range of time values, the
  \<open>isToday\<close> flag is set in one cell when today lies in the 42 days that start at
  the first cell, and in none otherwise.
\<close>

lemma isToday_once_without_skipped_day:
  "length (filter isToday (cells (monthDays c t))) =
     (if date (cells (monthDays c t) ! 0) \<le> t \<and> t \<le> date (cells (monthDays c t) ! 0) + 41
      then 1 else 0)"
proof -
  define b where
    "b = addDays (addDays (startOfMonth c) (- mondayFirstDow (startOfMonth c))) 0"
  have g: "isToday (gridCell (addDays (startOfMonth c) (- mondayFirstDow (startOfMonth c))) c t i)
           \<longleftrightarrow> b + int i = t" for i
    using addDays_linear [of "addDays (startOfMonth c) (- mondayFirstDow (startOfMonth c))" "int i"]
    by (simp add: gridCell_def sameDay_iff b_def)
  have "length (filter isToday (cells (monthDays c t)))
        = length (filter (\<lambda>i. b + int i = t) [0..<42])"
    by (simp add: cells_monthDays filter_map o_def g)
  also have "\<dots> = (if b \<le> t \<and> t < b + int 42 then 1 else 0)"
    by (rule count_offset)
  finally show ?thesis
    using date_cell [of 0 c t] by (simp add: b_def)
qed

section \<open>The two layers agree on plain keys and in a zone without gaps\<close>

lemma getStatus_js_plain:
  assumes "plainKey r p" and "plainKey r d"
  shows "getStatusFromAvailability_js r \<lparr>own = a, proto = None\<rparr> p d
         = Inr (getStatusFromAvailability a p d)"
proof -
  have p: "p \<noteq> ''__proto__''" "objectPrototype r p = None"
    using assms(1) by (auto simp: plainKey_def split: if_splits)
  have d: "d \<noteq> ''__proto__''" "objectPrototype r d = None"
    using assms(2) by (auto simp: plainKey_def split: if_splits)
  show ?thesis
  proof (cases "a p")
    case None
    then show ?thesis
      by (simp add: getStatusFromAvailability_js_def getStatusFromAvailability_def
            getProperty_def protoGet_def truthy_def p)
  next
    case (Some m)
    then show ?thesis
      by (cases "m d")
         (simp_all add: getStatusFromAvailability_js_def getStatusFromAvailability_def
            getProperty_def truthy_def hasProperty_def isTrue_def inObjectPrototype_def
            inheritedTrue_def defined_def d)
  qed
qed

lemma setStatus_js_plain:
  assumes "plainKey r p" and "plainKey r d"
  shows "setStatusInAvailability_js r \<lparr>own = a, proto = None\<rparr> p d s
         = \<lparr>own = setStatusInAvailability a p d s, proto = None\<rparr>"
proof -
  have p: "p \<noteq> ''__proto__''" "objectPrototype r p = None"
    using assms(1) by (auto simp: plainKey_def split: if_splits)
  have d: "d \<noteq> ''__proto__''"
    using assms(2) by (auto simp: plainKey_def split: if_splits)
  show ?thesis
    by (cases "a p")
       (simp_all add: setStatusInAvailability_js_def setStatusInAvailability_def Let_def
          getProperty_def protoGet_def truthy_def spread_def p d)
qed

lemma rowsLoop_js_plain:
  assumes "\<forall>row \<in> set rows. plainKey r (row_person_id row) \<and> plainKey r (row_day row)"
  shows "rowsLoop_js rows r next = Inr (r, rowsLoop rows next)"
  using assms
proof (induction rows arbitrary: "next")
  case Nil
  show ?case by simp
next
  case (Cons row rows)
  have p: "row_person_id row \<noteq> ''__proto__''" "objectPrototype r (row_person_id row) = None"
    and d: "row_day row \<noteq> ''__proto__''"
    using Cons.prems by (auto simp: plainKey_def split: if_splits)
  have rest: "\<forall>row \<in> set rows. plainKey r (row_person_id row) \<and> plainKey r (row_day row)"
    using Cons.prems by simp
  define next2 where
    "next2 = (let next1 = (if next (row_person_id row) = None
                           then next(row_person_id row \<mapsto> Map.empty) else next)
              in case next1 (row_person_id row) of
                   None \<Rightarrow> next1
                 | Some per \<Rightarrow>
                     next1(row_person_id row \<mapsto> per(row_day row \<mapsto> row_available row)))"
  have a: "rowsLoop (row # rows) next = rowsLoop rows next2"
    by (simp add: next2_def Let_def)
  have b: "rowsLoop_js (row # rows) r next = rowsLoop_js rows r next2"
    by (cases "next (row_person_id row)")
       (simp_all add: Let_def getProperty_def protoGet_def truthy_def assignDay_def p d next2_def)
  show ?case
    unfolding a b by (rule Cons.IH [OF rest])
qed

lemma newDate_tz_plain:
  assumes "skippedDays z = []" and "firstDay z \<le> newDate y m d" and "newDate y m d \<le> lastDay z"
  shows "newDate_tz z (Some y) (Some m) (Some d) = Some (newDate y m d)"
  using assms by (simp add: newDate_tz_def newDate_def Let_def)

declare cellsLoop_tz.simps [simp del]

lemma cellsLoop_tz_map:
  "i \<le> 42 \<Longrightarrow> cellsLoop_tz z f c t i cs = cs @ map (gridCell_tz z f c t) [i..<42]"
proof (induction z f c t i cs rule: cellsLoop_tz.induct)
  case (1 z f c t i cs)
  show ?case
  proof (cases "i < 42")
    case True
    then have "[i..<42] = i # [i + 1..<42]" by (simp add: upt_conv_Cons)
    moreover have "cellsLoop_tz z f c t (i + 1) (cs @ [gridCell_tz z f c t i])
          = (cs @ [gridCell_tz z f c t i]) @ map (gridCell_tz z f c t) [i + 1..<42]"
      using "1.IH" [OF True refl] True by (simp add: gridCell_tz_def)
    ultimately show ?thesis using True
      by (simp add: cellsLoop_tz.simps [of z f c t i cs] gridCell_tz_def Let_def)
  next
    case False
    with "1.prems" have "i = 42" by simp
    then show ?thesis by (simp add: cellsLoop_tz.simps [of z f c t 42 cs])
  qed
qed

lemma sameDay_tz_Some: "sameDay_tz (Some a) (Some b) \<longleftrightarrow> a = b"
  using sameDay_iff [of a b]
  by (simp add: sameDay_tz_def strictEquals_def getFullYear_tz_def getMonth_tz_def
        getDate_tz_def sameDay_def getFullYear_def getMonth_def getDate_def)

lemma apia_first_cell:
  "addDays_tz apia (startOfMonth_tz apia (Some (MakeDay 2011 11 1)))
     (map_option uminus (mondayFirstDow_tz (startOfMonth_tz apia (Some (MakeDay 2011 11 1)))))
   = Some 15306"
  by code_simp

lemma apia_cell_date:
  assumes "i < 42"
  shows "addDays_tz apia (Some 15306) (Some (int i))
         = Some (if 15306 + int i = 15338 then 15306 + int i + 1 else 15306 + int i)"
proof -
  have f: "YearFromTime 15306 = 2011 \<and> MonthFromTime 15306 = 10 \<and> DateFromTime 15306 = 28
           \<and> MakeDay 2011 10 28 = 15306 \<and> MakeDay 2011 11 30 = 15338"
    by code_simp
  have lin: "MakeDay 2011 10 (28 + int i) = MakeDay 2011 10 28 + int i"
    by (simp add: MakeDay_def Let_def)
  show ?thesis
    using assms
    by (simp add: addDays_tz_def newDate_tz_def getFullYear_tz_def getMonth_tz_def
          getDate_tz_def plus_number_def Let_def apia_def f lin)
qed

lemma apia_count:
  "length (filter (\<lambda>i. (if 15306 + int i = 15338 then 15306 + int i + 1 else 15306 + int i)
                        = 15339) [0..<42]) = 2"
  by code_simp

lemma apia_cells:
  "cells_tz (monthDays_tz apia (Some (MakeDay 2011 11 1)) t)
   = map (gridCell_tz apia (Some 15306) (Some (MakeDay 2011 11 1)) t) [0..<42]"
  by (simp add: monthDays_tz_def Let_def cellsLoop_tz_map apia_first_cell)

section \<open>The claims\<close>




text \<open>
  C4. The claim: for every cursor the grid has 42 cells, its first cell is a Monday
  on or before the first day of the cursor's month, the cell at index 7 is a Monday,
  and consecutive cells are consecutive days. For the cursor 1 January 100 the
  source computes \<open>firstCell\<close> as Monday 28 December 99, but every cell is then
  built by \<^verbatim>\<open>addDays(firstCell, i) = new Date(99, 11, 28 + i)\<close>, which the constructor
  reads in the year 1999: the first cell is Tuesday 28 December 1999, after the
  cursor's month, and the cell at index 7 is a Tuesday as well. (In a time zone
  that skips no day and inside the range of time values, the cells are consecutive
  days for every cursor, \<open>cells_consecutive\<close>, and the two cells are Mondays for a
  cursor whose year is negative or greater than 100, \<open>grid_monday_first\<close>.)
\<close>

theorem C4_grid_of_january_100:
  "getFullYear (newDate 100 0 1) = 100
   \<and> getMonth (newDate 100 0 1) = 0
   \<and> getDate (newDate 100 0 1) = 1
   \<and> startOfMonth (newDate 100 0 1) = newDate 100 0 1
   \<and> isoDate (addDays (startOfMonth (newDate 100 0 1))
                 (- mondayFirstDow (startOfMonth (newDate 100 0 1)))) = ''99-12-28''
   \<and> getDay (addDays (startOfMonth (newDate 100 0 1))
                (- mondayFirstDow (startOfMonth (newDate 100 0 1)))) = 1
   \<and> length (cells (monthDays (newDate 100 0 1) t)) = 42
   \<and> isoDate (date (cells (monthDays (newDate 100 0 1) t) ! 0)) = ''1999-12-28''
   \<and> getDay (date (cells (monthDays (newDate 100 0 1) t) ! 0)) = 2
   \<and> getDay (date (cells (monthDays (newDate 100 0 1) t) ! 7)) = 2
   \<and> startOfMonth (newDate 100 0 1) < date (cells (monthDays (newDate 100 0 1) t) ! 0)"
proof -
  have base: "addDays (addDays (startOfMonth (newDate 100 0 1))
                 (- mondayFirstDow (startOfMonth (newDate 100 0 1)))) 0 = 10953"
    by code_simp
  have d0: "date (cells (monthDays (newDate 100 0 1) t) ! 0) = 10953"
    using date_cell [of 0 "newDate 100 0 1" t] base by simp
  have d7: "date (cells (monthDays (newDate 100 0 1) t) ! 7) = 10960"
    using date_cell [of 7 "newDate 100 0 1" t] base by simp
  have cursor: "getFullYear (newDate 100 0 1) = 100 \<and> getMonth (newDate 100 0 1) = 0
      \<and> getDate (newDate 100 0 1) = 1 \<and> startOfMonth (newDate 100 0 1) = newDate 100 0 1
      \<and> startOfMonth (newDate 100 0 1) < 10953"
    by code_simp
  have first: "isoDate (addDays (startOfMonth (newDate 100 0 1))
                 (- mondayFirstDow (startOfMonth (newDate 100 0 1)))) = ''99-12-28''
      \<and> getDay (addDays (startOfMonth (newDate 100 0 1))
                (- mondayFirstDow (startOfMonth (newDate 100 0 1)))) = 1"
    by code_simp
  have cell: "isoDate 10953 = ''1999-12-28'' \<and> getDay 10953 = 2 \<and> getDay 10960 = 2"
    by code_simp
  show ?thesis
    unfolding d0 d7 using cursor first cell length_cells [of "newDate 100 0 1" t] by simp
qed

text \<open>
  C5. The "Unavailable" button selects exactly the ids of the known people who have
  at least one unavailable day among the dates of the 42 cells; with two people, of
  whom \<open>A\<close> has an unavailable day in the window and \<open>B\<close> has none, the selection
  becomes \<open>{A}\<close>.
\<close>

theorem C5_onlyUnavailable_selection:
  "selectedIds (onlyUnavailableClick s) =
     {id' p | p. p \<in> set (people s) \<and>
        (\<exists>c \<in> set (cells (monthDays (cursor s) (today s))).
           getStatus s (id' p) (isoDate (date c)) = unavailable)}
   \<and> length (cells (monthDays (cursor s) (today s))) = 42
   \<and> showMode (onlyUnavailableClick s) = Show_onlyUnavailable
   \<and> (map id' (people s) = [A, B]
        \<and> (\<exists>c \<in> set (cells (monthDays (cursor s) (today s))).
              getStatus s A (isoDate (date c)) = unavailable)
        \<and> (\<forall>c \<in> set (cells (monthDays (cursor s) (today s))).
              getStatus s B (isoDate (date c)) = available)
       \<longrightarrow> selectedIds (onlyUnavailableClick s) = {A})"
proof -
  let ?cs = "cells (monthDays (cursor s) (today s))"
  let ?hit = "\<lambda>q. \<exists>c \<in> set ?cs. getStatus s q (isoDate (date c)) = unavailable"
  have sel: "selectedIds (onlyUnavailableClick s) = {id' p | p. p \<in> set (people s) \<and> ?hit (id' p)}"
    by (simp add: onlyUnavailableClick_def scanPeople_eq scanCells_iff)
  have scen: "selectedIds (onlyUnavailableClick s) = {A}"
    if ids: "map id' (people s) = [A, B]" and a: "?hit A"
      and b: "\<forall>c \<in> set ?cs. getStatus s B (isoDate (date c)) = available"
  proof -
    have "{id' p | p. p \<in> set (people s) \<and> ?hit (id' p)} = {q \<in> set (map id' (people s)). ?hit q}"
      by auto
    also have "\<dots> = {q \<in> {A, B}. ?hit q}" by (simp add: ids)
    also have "\<dots> = {A}" using a b by auto
    finally show ?thesis by (simp only: sel)
  qed
  show ?thesis using sel scen by (simp add: length_cells onlyUnavailableClick_def)
qed

theorem C5_onlyUnavailable_selection_witness:
  "selectedIds (onlyUnavailableClick scenarioState) = {''A''}"
proof -
  have ids: "map id' (people scenarioState) = [''A'', ''B'']"
    by (simp add: scenarioState_def)
  have a: "\<exists>c \<in> set (cells (monthDays (cursor scenarioState) (today scenarioState))).
             getStatus scenarioState ''A'' (isoDate (date c)) = unavailable"
    by (rule scenario_A_hit)
  have b: "\<forall>c \<in> set (cells (monthDays (cursor scenarioState) (today scenarioState))).
             getStatus scenarioState ''B'' (isoDate (date c)) = available"
    by (simp add: scenario_B_free)
  show ?thesis
    using C5_onlyUnavailable_selection [of scenarioState "''A''" "''B''"] ids a b by blast
qed

text \<open>
  C6. The claim: a click on a day changes nothing when no current user is chosen,
  and otherwise flips the current user's status for that day and changes no other
  person's status. The first part holds: with an empty current user id the update
  leaves the mapping as it is. The last part does not hold when a person's id is
  \<^verbatim>\<open>__proto__\<close>. That person's click stores the record as the prototype of the
  mapping, where the status reads \<open>unavailable\<close>; the next click, of the person
  \<^verbatim>\<open>p1\<close> on another day, copies the own properties of the mapping and not its
  prototype, and the status of \<^verbatim>\<open>__proto__\<close> on the first day is \<open>available\<close> again.
\<close>

theorem C6_click_drops_prototype:
  "onDayClick_js r a prev [] d = Inr prev
   \<and> (case onDayClick_js standardRealm emptyObject emptyObject ''__proto__'' (newDate 2026 1 10) of
         Inl e \<Rightarrow> None
       | Inr a1 \<Rightarrow>
           (case onDayClick_js standardRealm a1 a1 ''p1'' (newDate 2026 1 11) of
              Inl e \<Rightarrow> None
            | Inr a2 \<Rightarrow>
                Some (getStatusFromAvailability_js standardRealm a1 ''__proto__'' ''2026-02-10'',
                      getStatusFromAvailability_js standardRealm a2 ''__proto__'' ''2026-02-10'',
                      getStatusFromAvailability_js standardRealm a2 ''p1'' ''2026-02-11'')))
       = Some (Inr unavailable, Inr available, Inr unavailable)"
proof -
  have "onDayClick_js r a prev [] d = Inr prev" by (simp add: onDayClick_js_def)
  moreover have "(case onDayClick_js standardRealm emptyObject emptyObject ''__proto__'' (newDate 2026 1 10) of
         Inl e \<Rightarrow> None
       | Inr a1 \<Rightarrow>
           (case onDayClick_js standardRealm a1 a1 ''p1'' (newDate 2026 1 11) of
              Inl e \<Rightarrow> None
            | Inr a2 \<Rightarrow>
                Some (getStatusFromAvailability_js standardRealm a1 ''__proto__'' ''2026-02-10'',
                      getStatusFromAvailability_js standardRealm a2 ''__proto__'' ''2026-02-10'',
                      getStatusFromAvailability_js standardRealm a2 ''p1'' ''2026-02-11'')))
       = Some (Inr unavailable, Inr available, Inr unavailable)"
    by code_simp
  ultimately show ?thesis by simp
qed

text \<open>
  C7. The remote \<open>setStatus\<close> refreshes on each of its paths. After the optimistic
  write and the upsert, a failed upsert is logged and followed by
  \<open>refreshAvailability\<close>, a successful one is followed by \<open>refreshAvailability\<close>
  directly; and \<open>refreshAvailability\<close> sends the range query for the first and the
  last of the 42 cells, whatever the store answers. So the query comes after the
  optimistic write in the effects of every run.
\<close>

theorem C7_setStatus_always_refreshes:
  "snd (setStatus p d st (UpsertError e) q s) =
     [SetAvailability (setStatusInAvailability (availability s) p d st),
      Upsert \<lparr>row_person_id = p, row_day = d, row_available = (st = available)\<rparr>,
      ConsoleError ''Failed to save availability'']
     @ snd (refreshAvailability q
              (s\<lparr>availability := setStatusInAvailability (availability s) p d st\<rparr>))
   \<and> snd (setStatus p d st UpsertOk q s) =
     [SetAvailability (setStatusInAvailability (availability s) p d st),
      Upsert \<lparr>row_person_id = p, row_day = d, row_available = (st = available)\<rparr>]
     @ snd (refreshAvailability q
              (s\<lparr>availability := setStatusInAvailability (availability s) p d st\<rparr>))
   \<and> (\<exists>rest. snd (refreshAvailability q
                     (s\<lparr>availability := setStatusInAvailability (availability s) p d st\<rparr>)) =
         Select (isoDate (date (cells (monthDays (cursor s) (today s)) ! 0)))
                (isoDate (date (cells (monthDays (cursor s) (today s)) ! 41))) # rest)
   \<and> (\<exists>pre rest. snd (setStatus p d st u q s) =
         SetAvailability (setStatusInAvailability (availability s) p d st) # pre
         @ Select (isoDate (date (cells (monthDays (cursor s) (today s)) ! 0)))
                  (isoDate (date (cells (monthDays (cursor s) (today s)) ! 41))) # rest)"
proof -
  let ?a1 = "setStatusInAvailability (availability s) p d st"
  let ?s1 = "s\<lparr>availability := ?a1\<rparr>"
  let ?sel = "Select (isoDate (date (cells (monthDays (cursor s) (today s)) ! 0)))
                     (isoDate (date (cells (monthDays (cursor s) (today s)) ! 41)))"
  obtain rest where r: "snd (refreshAvailability q ?s1) = ?sel # rest"
    using refresh_effects [of q ?s1] by auto
  have every: "\<exists>pre rest. snd (setStatus p d st u q s) = SetAvailability ?a1 # pre @ ?sel # rest"
  proof (cases u)
    case (UpsertError x)
    have "snd (setStatus p d st u q s) =
          SetAvailability ?a1
          # [Upsert \<lparr>row_person_id = p, row_day = d, row_available = (st = available)\<rparr>,
             ConsoleError ''Failed to save availability''] @ ?sel # rest"
      by (simp add: UpsertError setStatus_effects r)
    then show ?thesis by blast
  next
    case UpsertOk
    have "snd (setStatus p d st u q s) =
          SetAvailability ?a1
          # [Upsert \<lparr>row_person_id = p, row_day = d, row_available = (st = available)\<rparr>]
            @ ?sel # rest"
      by (simp add: UpsertOk setStatus_effects r)
    then show ?thesis by blast
  qed
  show ?thesis
    using setStatus_effects(1) [of p d st e q s] setStatus_effects(2) [of p d st q s] r every
    by simp
qed

text \<open>
  C8. The claim: after a successful refresh the status of every person and day is
  determined by the rows of the response alone. For a row of the person
  \<^verbatim>\<open>constructor\<close> the test \<^verbatim>\<open>!next[pid]\<close> finds the inherited function \<^verbatim>\<open>Object\<close>, no own
  record is made, and the boolean is written on \<^verbatim>\<open>Object\<close> itself: the mapping of
  that refresh has no own key, and after a second refresh that returns no row the
  status of (\<^verbatim>\<open>constructor\<close>, \<^verbatim>\<open>2026-02-01\<close>) is \<open>unavailable\<close>, where it is \<open>available\<close>
  on the empty mapping in the realm as it was before the first refresh.
\<close>

theorem C8_rows_on_inherited_object:
  "(case afterRows [\<lparr>row_person_id = ''constructor'', row_day = ''2026-02-01'',
                      row_available = False\<rparr>] standardRealm of
      Inl e \<Rightarrow> None
    | Inr (r1, a1) \<Rightarrow>
        (case afterRows [] r1 of
           Inl e \<Rightarrow> None
         | Inr (r2, a2) \<Rightarrow>
             Some (defined (own a1 ''constructor''), defined (own a2 ''constructor''),
                   getStatusFromAvailability_js r2 a2 ''constructor'' ''2026-02-01'')))
   = Some (False, False, Inr unavailable)
   \<and> getStatusFromAvailability_js standardRealm emptyObject ''constructor'' ''2026-02-01''
       = Inr available"
  by code_simp

text \<open>
  C9. The claim: for every cursor and today, \<open>isToday\<close> is set in exactly one cell
  when today lies in the 42 days of the grid. In \<^verbatim>\<open>Pacific/Apia\<close>, for the cursor
  1 December 2011, the grid starts on 28 November and its cells are
  \<^verbatim>\<open>new Date(2011, 10, 28 + i)\<close>; 30 December does not exist there, so the cells of
  index 32 and 33 are both 31 December 2011, and with that day as today the flag
  is set in two cells.
\<close>

theorem C9_two_cells_today_in_apia:
  "length (filter isToday_tz
     (cells_tz (monthDays_tz apia (Some (MakeDay 2011 11 1)) (Some (MakeDay 2011 11 31))))) = 2
   \<and> map_option isoDate (date_tz
        (cells_tz (monthDays_tz apia (Some (MakeDay 2011 11 1)) (Some (MakeDay 2011 11 31))) ! 0))
       = Some ''2011-11-28''
   \<and> map_option isoDate (date_tz
        (cells_tz (monthDays_tz apia (Some (MakeDay 2011 11 1)) (Some (MakeDay 2011 11 31))) ! 32))
       = Some ''2011-12-31''
   \<and> map_option isoDate (date_tz
        (cells_tz (monthDays_tz apia (Some (MakeDay 2011 11 1)) (Some (MakeDay 2011 11 31))) ! 33))
       = Some ''2011-12-31''
   \<and> isoDate (MakeDay 2011 11 31) = ''2011-12-31''"
proof -
  let ?g = "cells_tz (monthDays_tz apia (Some (MakeDay 2011 11 1)) (Some (MakeDay 2011 11 31)))"
  have t: "MakeDay 2011 11 31 = 15339" by code_simp
  have iso: "isoDate 15306 = ''2011-11-28'' \<and> isoDate 15339 = ''2011-12-31''" by code_simp
  have today: "isToday_tz (gridCell_tz apia (Some 15306) c (Some 15339) i)
               \<longleftrightarrow> (if 15306 + int i = 15338 then 15306 + int i + 1 else 15306 + int i) = 15339"
    if "i < 42" for i c
    by (simp add: gridCell_tz_def apia_cell_date [OF that] sameDay_tz_Some)
  have "length (filter isToday_tz ?g)
        = length (filter (\<lambda>i. isToday_tz (gridCell_tz apia (Some 15306)
                                   (Some (MakeDay 2011 11 1)) (Some 15339) i)) [0..<42])"
    unfolding apia_cells t by (simp add: filter_map o_def)
  also have "\<dots> = length (filter (\<lambda>i. (if 15306 + int i = 15338 then 15306 + int i + 1
                                       else 15306 + int i) = 15339) [0..<42])"
    by (rule arg_cong [where f = length], rule filter_cong) (simp_all add: today)
  also have "\<dots> = 2" by (rule apia_count)
  finally have n: "length (filter isToday_tz ?g) = 2" .
  have d: "date_tz (?g ! i)
           = Some (if 15306 + int i = 15338 then 15306 + int i + 1 else 15306 + int i)"
    if "i < 42" for i
    using that by (simp add: apia_cells gridCell_tz_def apia_cell_date)
  show ?thesis
    using n d [of 0] d [of 32] d [of 33] iso by (simp add: t)
qed

text \<open>
  C10. The functions of \<^verbatim>\<open>src/src/App.tsx\<close> and the functions of the same names in
  the Supabase-backed component return the same results on every input.
\<close>

theorem C10_copies_agree:
  "App_getStatusFromAvailability a p d = getStatusFromAvailability a p d
   \<and> App_setStatusInAvailability a p d s = setStatusInAvailability a p d s"
  by (auto simp: App_getStatusFromAvailability_def getStatusFromAvailability_def
                 App_setStatusInAvailability_def setStatusInAvailability_def
           split: option.splits)

end
